theory Spec2Isabelle
  imports Complex_Main "HOL-Library.Sublist"
begin

section \<open>Geospatial utilities of the VirtuGhan analysis plugin\<close>

text \<open>
  The development embeds the two modules \<^verbatim>\<open>src/a_4_utils.py\<close> and
  \<^verbatim>\<open>src/Other_Trials/A4_utils.py\<close>. Python exceptions are values of a sum type,
  the dictionary of the container class is an association list in insertion order, and
  the libraries the modules call (mercantile, the tile engine, PIL, the builtin
  \<^verbatim>\<open>eval\<close>) and the file system are parameters of the functions that call them.
  Array elements are IEEE 754 numbers, rounded after every operation.
\<close>

subsection \<open>Exceptions\<close>

text \<open>
  \<open>ValueError\<close>, \<open>TypeError\<close> and \<open>ZeroDivisionError\<close> are the exceptions the
  interpreter raises for the modules' own statements (tuple unpacking, array arithmetic,
  scalar division); \<open>Raised name\<close> is any exception raised inside a library call.
\<close>

datatype exn = ValueError | TypeError | ZeroDivisionError | Raised string

subsection \<open>The dictionary of \<open>VirtualCube\<close>\<close>

text \<open>
  A Python \<^verbatim>\<open>dict\<close> keeps its keys in insertion order; assigning to a key that is
  present replaces the value in place, assigning to a new key appends it.
\<close>

fun dict_setitem :: "('k \<times> 'v) list \<Rightarrow> 'k \<Rightarrow> 'v \<Rightarrow> ('k \<times> 'v) list" where
  "dict_setitem [] k v = [(k, v)]"
| "dict_setitem ((k', v') # d) k v =
     (if k' = k then (k, v) # d else (k', v') # dict_setitem d k v)"

fun dict_get :: "('k \<times> 'v) list \<Rightarrow> 'k \<Rightarrow> 'v option" where
  "dict_get [] k = None"
| "dict_get ((k', v') # d) k = (if k' = k then Some v' else dict_get d k)"

definition dict_keys :: "('k \<times> 'v) list \<Rightarrow> 'k list" where
  "dict_keys d = map fst d"

subsection \<open>\<open>class VirtualCube\<close>\<close>

text \<open>
  The key \<^verbatim>\<open>(*coords, name)\<close> is the tuple of the elements of \<open>coords\<close> followed by
  \<open>name\<close>; two such tuples are equal exactly when their coordinates and their names are,
  so the key is the pair of the coordinate sequence and the name. The documented shape is
  \<open>coords = (x, y, z)\<close>, the list \<open>[x, y, z]\<close>; \<open>add_tile\<close> and \<open>get_tile\<close> accept a
  sequence of any length, and only \<open>save_all\<close> unpacks the key into four components.
\<close>

type_synonym tile_key = "int list \<times> string"

record ('img, 'meta) VirtualCube =
  tiles :: "(tile_key \<times> ('img \<times> 'meta)) list"

definition init :: "('img, 'meta) VirtualCube" where
  "init = \<lparr>tiles = []\<rparr>"

definition add_tile ::
  "('img, 'meta) VirtualCube \<Rightarrow> string \<Rightarrow> 'img \<Rightarrow> 'meta \<Rightarrow> int list \<Rightarrow> ('img, 'meta) VirtualCube"
where
  "add_tile self name img metadata coords =
     (let key = (coords, name)
      in self\<lparr>tiles := dict_setitem (tiles self) key (img, metadata)\<rparr>)"

definition list_tiles :: "('img, 'meta) VirtualCube \<Rightarrow> tile_key list" where
  "list_tiles self = dict_keys (tiles self)"

text \<open>The result \<open>None\<close> is Python's \<^verbatim>\<open>None\<close>, the default of \<^verbatim>\<open>dict.get\<close>.\<close>

definition get_tile ::
  "('img, 'meta) VirtualCube \<Rightarrow> string \<Rightarrow> int list \<Rightarrow> ('img \<times> 'meta) option"
where
  "get_tile self name coords = (let key = (coords, name) in dict_get (tiles self) key)"

subsection \<open>Formatting integers and replacing substrings\<close>

text \<open>
  An f-string field \<^verbatim>\<open>{z}\<close> of an \<^verbatim>\<open>int\<close> is its decimal numeral, with a leading
  minus sign for a negative number.
\<close>

definition digit_char :: "nat \<Rightarrow> char" where
  "digit_char d = ''0123456789'' ! d"

fun str_nat :: "nat \<Rightarrow> string" where
  "str_nat n = (if n < 10 then [digit_char n] else str_nat (n div 10) @ [digit_char (n mod 10)])"

declare str_nat.simps [simp del]

definition str_int :: "int \<Rightarrow> string" where
  "str_int i = (if i < 0 then CHR ''-'' # str_nat (nat (- i)) else str_nat (nat i))"

text \<open>
  \<^verbatim>\<open>s.replace(old, new)\<close> replaces the occurrences of \<open>old\<close> from left to right,
  without overlap. With an empty \<open>old\<close>, Python puts \<open>new\<close> before every character and
  at the end.
\<close>

function str_replace :: "string \<Rightarrow> string \<Rightarrow> string \<Rightarrow> string" where
  "str_replace s old new =
     (if old = [] then concat (map (\<lambda>c. new @ [c]) s) @ new
      else if s = [] then []
      else if prefix old s then new @ str_replace (drop (length old) s) old new
      else hd s # str_replace (tl s) old new)"
  by pat_completeness auto
termination
  by (relation "measure (\<lambda>(s, old, new). length s)") auto

declare str_replace.simps [simp del]

subsection \<open>Files and standard output\<close>

text \<open>
  The part of the outside world the modules write to: the files, the calls of
  \<^verbatim>\<open>Image.save\<close> that returned (path and image, in the order of the calls), and the
  lines printed. A path is a string, and which file a path names is decided by the file
  system (repeated slashes, \<^verbatim>\<open>.\<close> components, links, the case of letters): \<open>resolve\<close>
  maps a path to the file it names, and the files are kept by file, so that two paths of
  one file share their content. The content of a PNG file is the image it encodes.
  Whether \<^verbatim>\<open>Image.save\<close> raises (a missing folder, an image mode PNG cannot hold) is
  decided outside the modules too: \<open>save_raises\<close> gives the exception, if any, for an
  image, a path and a world.
\<close>

record ('fid, 'img) world =
  files :: "'fid \<rightharpoonup> 'img"
  save_log :: "(string \<times> 'img) list"
  stdout :: "string list"

definition image_save ::
  "(string \<Rightarrow> 'fid) \<Rightarrow> ('img \<Rightarrow> string \<Rightarrow> ('fid, 'img) world \<Rightarrow> exn option) \<Rightarrow> 'img \<Rightarrow> string
     \<Rightarrow> ('fid, 'img) world \<Rightarrow> exn + ('fid, 'img) world"
where
  "image_save resolve save_raises img filename w =
     (case save_raises img filename w of
        Some e \<Rightarrow> Inl e
      | None \<Rightarrow>
          Inr (w\<lparr>files := (files w)(resolve filename \<mapsto> img),
                 save_log := save_log w @ [(filename, img)]\<rparr>))"

text \<open>A world in which saving never fails, and the world before anything is written.\<close>

definition never_raises :: "'img \<Rightarrow> string \<Rightarrow> ('fid, 'img) world \<Rightarrow> exn option" where
  "never_raises img filename w = None"

definition empty_world :: "('fid, 'img) world" where
  "empty_world = \<lparr>files = Map.empty, save_log = [], stdout = []\<rparr>"

definition py_print :: "string \<Rightarrow> ('fid, 'img) world \<Rightarrow> ('fid, 'img) world" where
  "py_print line w = w\<lparr>stdout := stdout w @ [line]\<rparr>"

text \<open>
  A file system for the examples: POSIX names without links and without \<^verbatim>\<open>..\<close>.
  A path names a file by whether it starts at the root and by its components, where empty
  components (repeated slashes) and \<^verbatim>\<open>.\<close> components do not count, so that
  \<^verbatim>\<open>out/a.png\<close>, \<^verbatim>\<open>out//a.png\<close> and \<^verbatim>\<open>out/./a.png\<close> are one file.
\<close>

fun split_slash :: "string \<Rightarrow> string list" where
  "split_slash [] = [[]]"
| "split_slash (c # s) =
     (if c = CHR ''/'' then [] # split_slash s
      else (case split_slash s of [] \<Rightarrow> [[c]] | h # t \<Rightarrow> (c # h) # t))"

definition posix_resolve :: "string \<Rightarrow> bool \<times> string list" where
  "posix_resolve p =
     (take 1 p = ''/'', filter (\<lambda>c. c \<noteq> [] \<and> c \<noteq> ''.'') (split_slash p))"

subsection \<open>\<open>save_tile_image\<close>\<close>

text \<open>\<^verbatim>\<open>src/a_4_utils.py\<close>: the file name is \<^verbatim>\<open>f"{output_folder}/tile_{z}_{x}_{y}.png"\<close>.\<close>

definition tile_filename :: "string \<Rightarrow> int \<Rightarrow> int \<Rightarrow> int \<Rightarrow> string" where
  "tile_filename output_folder x y z =
     output_folder @ ''/tile_'' @ str_int z @ ''_'' @ str_int x @ ''_'' @ str_int y @ ''.png''"

definition save_tile_image ::
  "(string \<Rightarrow> 'fid) \<Rightarrow> ('img \<Rightarrow> string \<Rightarrow> ('fid, 'img) world \<Rightarrow> exn option) \<Rightarrow> 'img \<Rightarrow> int \<Rightarrow> int
     \<Rightarrow> int \<Rightarrow> string \<Rightarrow> ('fid, 'img) world \<Rightarrow> exn + ('fid, 'img) world"
where
  "save_tile_image resolve save_raises img x y z output_folder w =
     (let filename = tile_filename output_folder x y z
      in case image_save resolve save_raises img filename w of
           Inl e \<Rightarrow> Inl e
         | Inr w' \<Rightarrow> Inr (py_print (''Saved tile image as: '' @ filename) w'))"

text \<open>
  \<^verbatim>\<open>src/Other_Trials/A4_utils.py\<close>: the file name is
  \<^verbatim>\<open>f"{output_folder}/tile_{x}_{y}_{z}.png"\<close>.
\<close>

definition trials_tile_filename :: "string \<Rightarrow> int \<Rightarrow> int \<Rightarrow> int \<Rightarrow> string" where
  "trials_tile_filename output_folder x y z =
     output_folder @ ''/tile_'' @ str_int x @ ''_'' @ str_int y @ ''_'' @ str_int z @ ''.png''"

definition trials_save_tile_image ::
  "(string \<Rightarrow> 'fid) \<Rightarrow> ('img \<Rightarrow> string \<Rightarrow> ('fid, 'img) world \<Rightarrow> exn option) \<Rightarrow> 'img \<Rightarrow> int \<Rightarrow> int
     \<Rightarrow> int \<Rightarrow> string \<Rightarrow> ('fid, 'img) world \<Rightarrow> exn + ('fid, 'img) world"
where
  "trials_save_tile_image resolve save_raises img x y z output_folder w =
     (let filename = trials_tile_filename output_folder x y z
      in case image_save resolve save_raises img filename w of
           Inl e \<Rightarrow> Inl e
         | Inr w' \<Rightarrow> Inr (py_print (''Saved tile image as: '' @ filename) w'))"

subsection \<open>\<open>VirtualCube.save_all\<close>\<close>

text \<open>
  The loop header \<^verbatim>\<open>for (x, y, z, name), (img, _) in self.tiles.items()\<close> unpacks
  every key into four components and raises \<open>ValueError\<close> on a key of another length.
  The loop stops at the first exception; the summary line is printed after the loop.
\<close>

definition cube_filename :: "string \<Rightarrow> string \<Rightarrow> int \<Rightarrow> int \<Rightarrow> int \<Rightarrow> string" where
  "cube_filename output_folder name x y z =
     output_folder @ ''/'' @ name @ ''_'' @ str_int z @ ''_'' @ str_int x @ ''_'' @
       str_int y @ ''.png''"

text \<open>The file name the loop builds for the entry under a key of four components.\<close>

definition key_filename :: "string \<Rightarrow> tile_key \<Rightarrow> string" where
  "key_filename output_folder key =
     (case key of (coords, name) \<Rightarrow>
        cube_filename output_folder name (coords ! 0) (coords ! 1) (coords ! 2))"

fun save_all_loop ::
  "(string \<Rightarrow> 'fid) \<Rightarrow> ('img \<Rightarrow> string \<Rightarrow> ('fid, 'img) world \<Rightarrow> exn option) \<Rightarrow> string
     \<Rightarrow> (tile_key \<times> ('img \<times> 'meta)) list \<Rightarrow> ('fid, 'img) world \<Rightarrow> exn + ('fid, 'img) world"
where
  "save_all_loop resolve save_raises output_folder [] w = Inr w"
| "save_all_loop resolve save_raises output_folder (((coords, name), (img, meta)) # items) w =
     (if length coords \<noteq> 3 then Inl ValueError
      else
        (let x = coords ! 0; y = coords ! 1; z = coords ! 2;
             filename = cube_filename output_folder name x y z
         in case image_save resolve save_raises img filename w of
              Inl e \<Rightarrow> Inl e
            | Inr w' \<Rightarrow> save_all_loop resolve save_raises output_folder items w'))"

definition save_all ::
  "(string \<Rightarrow> 'fid) \<Rightarrow> ('img \<Rightarrow> string \<Rightarrow> ('fid, 'img) world \<Rightarrow> exn option)
     \<Rightarrow> ('img, 'meta) VirtualCube \<Rightarrow> string \<Rightarrow> ('fid, 'img) world \<Rightarrow> exn + ('fid, 'img) world"
where
  "save_all resolve save_raises self output_folder w =
     (case save_all_loop resolve save_raises output_folder (tiles self) w of
        Inl e \<Rightarrow> Inl e
      | Inr w' \<Rightarrow>
          Inr (py_print (''Saved '' @ str_nat (length (tiles self)) @ '' tiles to '' @
                 output_folder) w'))"

text \<open>
  What the loop passes to \<^verbatim>\<open>Image.save\<close> for the entries of a dictionary, in their
  order: the file name of each key with the image stored under it.
\<close>

definition entry_saves ::
  "string \<Rightarrow> (tile_key \<times> ('img \<times> 'meta)) list \<Rightarrow> (string \<times> 'img) list"
where
  "entry_saves output_folder items =
     map (\<lambda>entry. (key_filename output_folder (fst entry), fst (snd entry))) items"

subsection \<open>Floating-point numbers\<close>

text \<open>
  A floating-point value is a finite number, an infinity or a NaN. The finite numbers of
  a format are the rationals \<open>m * 2 ^ (e - p + 1)\<close> with \<open>\<bar>m\<bar> < 2 ^ p\<close> and
  \<open>emin \<le> e \<le> emax\<close>, for the precision \<open>p\<close> of the format; \<^verbatim>\<open>float32\<close> is IEEE 754
  binary32 and a Python \<^verbatim>\<open>float\<close> is binary64. The two zeros of IEEE 754 are equal
  as numbers and are one value here; the zero divisors of this development are sums with
  the positive constant \<^verbatim>\<open>1e-6\<close>, which are never \<open>-0.0\<close>.
\<close>

datatype fval = Fin rat | PInf | NInf | NaN

record format =
  precision :: nat
  emin :: int
  emax :: int

definition binary32 :: format where
  "binary32 = \<lparr>precision = 24, emin = - 126, emax = 127\<rparr>"

definition binary64 :: format where
  "binary64 = \<lparr>precision = 53, emin = - 1022, emax = 1023\<rparr>"

definition pow2 :: "int \<Rightarrow> rat" where
  "pow2 e = (if 0 \<le> e then 2 ^ nat e else 1 / 2 ^ nat (- e))"

text \<open>The exponent of a positive number: the \<open>e\<close> with \<open>2 ^ e \<le> a < 2 ^ (e + 1)\<close>.\<close>

function ilog2 :: "rat \<Rightarrow> int" where
  "ilog2 a =
     (if a \<le> 0 then 0
      else if 2 \<le> a then ilog2 (a / 2) + 1
      else if a < 1 then ilog2 (2 * a) - 1
      else 0)"
  by pat_completeness auto
termination
proof (relation "measure (\<lambda>a. if 2 \<le> a then nat \<lfloor>a\<rfloor> else if 0 < a \<and> a < 1 then nat \<lceil>1 / a\<rceil> else 0)")
  show "wf (measure (\<lambda>a::rat. if 2 \<le> a then nat \<lfloor>a\<rfloor> else if 0 < a \<and> a < 1 then nat \<lceil>1 / a\<rceil> else 0))"
    by simp
next
  fix a :: rat
  assume "\<not> a \<le> 0" and a: "2 \<le> a"
  have 1: "\<lfloor>a / 2\<rfloor> < \<lfloor>a\<rfloor>" using a by linarith
  have 2: "0 < \<lfloor>a\<rfloor>" using a by linarith
  have 3: "\<not> (a / 2 < 1)" using a by simp
  show "(a / 2, a) \<in> measure (\<lambda>a. if 2 \<le> a then nat \<lfloor>a\<rfloor> else if 0 < a \<and> a < 1 then nat \<lceil>1 / a\<rceil> else 0)"
    using a 1 2 3 by (simp del: floor_divide_eq_div_numeral)
next
  fix a :: rat
  assume p: "\<not> a \<le> 0" and "\<not> 2 \<le> a" and a: "a < 1"
  from p a have x: "1 < 1 / a" by simp
  then have c: "0 < \<lceil>1 / a\<rceil>" by linarith
  have h: "\<lceil>1 / (2 * a)\<rceil> < \<lceil>1 / a\<rceil>" if "2 * a < 1"
  proof -
    from that p have "2 < 1 / a" by (simp add: field_simps)
    then have "1 / a / 2 \<le> 1 / a - 1" by simp
    then have "\<lceil>1 / a / 2\<rceil> \<le> \<lceil>1 / a - 1\<rceil>" by (rule ceiling_mono)
    also have "\<dots> = \<lceil>1 / a\<rceil> - 1" by simp
    finally show ?thesis by (simp add: field_simps)
  qed
  show "(2 * a, a) \<in> measure (\<lambda>a. if 2 \<le> a then nat \<lfloor>a\<rfloor> else if 0 < a \<and> a < 1 then nat \<lceil>1 / a\<rceil> else 0)"
    using p a c h by auto
qed

declare ilog2.simps [simp del]

text \<open>Rounding to the nearest integer, a tie to the even one.\<close>

definition round_half_even :: "rat \<Rightarrow> int" where
  "round_half_even m =
     (let f = \<lfloor>m\<rfloor>; d = m - of_int f
      in if d < 1 / 2 then f else if 1 / 2 < d then f + 1 else if even f then f else f + 1)"

text \<open>
  The spacing of the numbers of a format around a positive number \<open>a\<close> (below
  \<open>2 ^ emin\<close> the subnormal spacing), and \<open>a\<close> rounded to a multiple of it.
\<close>

definition ulp_of :: "format \<Rightarrow> rat \<Rightarrow> rat" where
  "ulp_of fmt a = pow2 (max (ilog2 a) (emin fmt) - int (precision fmt) + 1)"

definition round_mag :: "format \<Rightarrow> rat \<Rightarrow> rat" where
  "round_mag fmt a = of_int (round_half_even (a / ulp_of fmt a)) * ulp_of fmt a"

text \<open>
  Rounding a number to a format, as IEEE 754 does by default (to nearest, ties to even):
  a magnitude that rounds to \<open>2 ^ (emax + 1)\<close> or more overflows to an infinity.
\<close>

definition round_to :: "format \<Rightarrow> rat \<Rightarrow> fval" where
  "round_to fmt q =
     (if q = 0 then Fin 0
      else
        (let r = round_mag fmt \<bar>q\<bar>
         in if pow2 (emax fmt + 1) \<le> r then (if 0 < q then PInf else NInf)
            else Fin (if 0 < q then r else - r)))"

text \<open>Converting a value to a format; infinities and NaN are kept.\<close>

definition cast_to :: "format \<Rightarrow> fval \<Rightarrow> fval" where
  "cast_to fmt v = (case v of Fin q \<Rightarrow> round_to fmt q | _ \<Rightarrow> v)"

text \<open>
  The operations of a format: the exact result, rounded. A division by zero gives an
  infinity or a NaN, as in numpy, where it raises nothing.
\<close>

fun fneg :: "fval \<Rightarrow> fval" where
  "fneg (Fin a) = Fin (- a)"
| "fneg PInf = NInf"
| "fneg NInf = PInf"
| "fneg NaN = NaN"

fun fadd :: "format \<Rightarrow> fval \<Rightarrow> fval \<Rightarrow> fval" where
  "fadd fmt NaN b = NaN"
| "fadd fmt a NaN = NaN"
| "fadd fmt (Fin a) (Fin b) = round_to fmt (a + b)"
| "fadd fmt (Fin a) b = b"
| "fadd fmt a (Fin b) = a"
| "fadd fmt PInf PInf = PInf"
| "fadd fmt NInf NInf = NInf"
| "fadd fmt PInf NInf = NaN"
| "fadd fmt NInf PInf = NaN"

definition fsub :: "format \<Rightarrow> fval \<Rightarrow> fval \<Rightarrow> fval" where
  "fsub fmt a b = fadd fmt a (fneg b)"

fun fdiv :: "format \<Rightarrow> fval \<Rightarrow> fval \<Rightarrow> fval" where
  "fdiv fmt NaN b = NaN"
| "fdiv fmt a NaN = NaN"
| "fdiv fmt (Fin a) (Fin b) =
     (if b = 0 then (if a = 0 then NaN else if 0 < a then PInf else NInf)
      else round_to fmt (a / b))"
| "fdiv fmt (Fin a) b = Fin 0"
| "fdiv fmt PInf (Fin b) = (if b < 0 then NInf else PInf)"
| "fdiv fmt NInf (Fin b) = (if b < 0 then PInf else NInf)"
| "fdiv fmt a b = NaN"

text \<open>
  The literal \<^verbatim>\<open>1e-6\<close> is a Python \<^verbatim>\<open>float\<close>: the binary64 number nearest to
  \<open>1 / 1000000\<close>.
\<close>

definition eps :: fval where
  "eps = round_to binary64 (1 / 1000000)"

subsection \<open>Arrays\<close>

text \<open>
  An array is the list of its elements (one dimension). A binary operator on two arrays
  works element by element; an array of length one is broadcast against the other, and
  any other difference of lengths raises \<open>ValueError\<close>.
\<close>

type_synonym ndarray = "fval list"

definition np_binop :: "(fval \<Rightarrow> fval \<Rightarrow> fval) \<Rightarrow> ndarray \<Rightarrow> ndarray \<Rightarrow> exn + ndarray" where
  "np_binop f xs ys =
     (if length xs = length ys then Inr (map2 f xs ys)
      else if length xs = 1 then Inr (map (f (hd xs)) ys)
      else if length ys = 1 then Inr (map (\<lambda>x. f x (hd ys)) xs)
      else Inl ValueError)"

text \<open>
  \<^verbatim>\<open>a.astype('float32')\<close>: a new array, every element rounded to \<^verbatim>\<open>float32\<close>. The
  elements of the argument are the numbers of its own type (integers, or the numbers of
  a wider float type).
\<close>

definition astype_float32 :: "ndarray \<Rightarrow> ndarray" where
  "astype_float32 a = map (cast_to binary32) a"

text \<open>
  A \<^verbatim>\<open>float32\<close> array plus a Python \<^verbatim>\<open>float\<close>: the result is a \<^verbatim>\<open>float32\<close>
  array; numpy converts the \<^verbatim>\<open>float\<close> to \<^verbatim>\<open>float32\<close> and adds it to every element.
\<close>

definition np_add_float :: "ndarray \<Rightarrow> fval \<Rightarrow> ndarray" where
  "np_add_float xs c = map (\<lambda>a. fadd binary32 a (cast_to binary32 c)) xs"

subsection \<open>\<open>compute_ndvi\<close> (\<^verbatim>\<open>src/Other_Trials/A4_utils.py\<close>)\<close>

text \<open>
  The divisor of \<open>compute_ndvi\<close>: \<^verbatim>\<open>nir + red + 1e-6\<close>, on the local variables
  \<open>nir\<close> and \<open>red\<close>.
\<close>

definition ndvi_divisor :: "ndarray \<Rightarrow> ndarray \<Rightarrow> exn + ndarray" where
  "ndvi_divisor nir red =
     (case np_binop (fadd binary32) nir red of
        Inl e \<Rightarrow> Inl e
      | Inr s \<Rightarrow> Inr (np_add_float s eps))"

definition compute_ndvi :: "ndarray \<Rightarrow> ndarray \<Rightarrow> exn + ndarray" where
  "compute_ndvi nir_array red_array =
     (let nir = astype_float32 nir_array;
          red = astype_float32 red_array
      in case np_binop (fsub binary32) nir red of
           Inl e \<Rightarrow> Inl e
         | Inr d \<Rightarrow>
             (case ndvi_divisor nir red of
                Inl e \<Rightarrow> Inl e
              | Inr den \<Rightarrow> np_binop (fdiv binary32) d den))"

subsection \<open>\<open>compute_index\<close> (\<^verbatim>\<open>src/a_4_utils.py\<close>)\<close>

text \<open>
  The value of an evaluated expression is a Python \<^verbatim>\<open>float\<close> or a \<^verbatim>\<open>float32\<close>
  array; other objects (arrays of other types among them) are outside the model. Between
  two Python floats the arithmetic is binary64, and \<^verbatim>\<open>/\<close> raises
  \<open>ZeroDivisionError\<close> on a zero divisor. As soon as one operand is a \<^verbatim>\<open>float32\<close>
  array the result is a \<^verbatim>\<open>float32\<close> array: numpy converts a \<^verbatim>\<open>float\<close> operand to
  \<^verbatim>\<open>float32\<close> (the promotion rules of NumPy 2) and works element by element.
\<close>

datatype pyval = PyFloat fval | NdArray ndarray

definition array_result :: "exn + ndarray \<Rightarrow> exn + pyval" where
  "array_result r = (case r of Inl e \<Rightarrow> Inl e | Inr xs \<Rightarrow> Inr (NdArray xs))"

definition py_add_float :: "pyval \<Rightarrow> fval \<Rightarrow> pyval" where
  "py_add_float v c =
     (case v of
        PyFloat a \<Rightarrow> PyFloat (fadd binary64 a c)
      | NdArray xs \<Rightarrow> NdArray (np_add_float xs c))"

definition py_truediv :: "pyval \<Rightarrow> pyval \<Rightarrow> exn + pyval" where
  "py_truediv u v =
     (case (u, v) of
        (PyFloat a, PyFloat b) \<Rightarrow>
          (if b = Fin 0 then Inl ZeroDivisionError else Inr (PyFloat (fdiv binary64 a b)))
      | (PyFloat a, NdArray ys) \<Rightarrow>
          Inr (NdArray (map (fdiv binary32 (cast_to binary32 a)) ys))
      | (NdArray xs, PyFloat b) \<Rightarrow>
          Inr (NdArray (map (\<lambda>a. fdiv binary32 a (cast_to binary32 b)) xs))
      | (NdArray xs, NdArray ys) \<Rightarrow> array_result (np_binop (fdiv binary32) xs ys))"

text \<open>
  \<^verbatim>\<open>eval\<close> reads the local variables of \<open>compute_index\<close> at the point of the call:
  the four parameters, \<open>b1\<close>, \<open>b2\<close> and, at the second call, \<open>num\<close>. An expression
  cannot assign to a variable, but it can call a method that changes an array in place
  (\<^verbatim>\<open>b2.__isub__(1e-6)\<close>), and the change is seen through every variable that refers
  to the array. The builtin is a parameter \<open>py_eval\<close> of the model: it maps the
  expression text and the values of the variables either to the exception it raises or
  to its value together with the values of the variables afterwards.
\<close>

record locals =
  loc_nir_array :: ndarray
  loc_red_array :: ndarray
  loc_numerator :: string
  loc_denominator :: string
  loc_b1 :: ndarray
  loc_b2 :: ndarray
  loc_num :: "pyval option"



definition rename_bands :: "string \<Rightarrow> string" where
  "rename_bands expr = str_replace (str_replace expr ''band1'' ''b1'') ''band2'' ''b2''"

text \<open>
  The second statement with \<^verbatim>\<open>eval\<close>: the value of the local variable \<open>den\<close>, and
  the variables after the evaluation.
\<close>

definition index_divisor ::
  "(string \<Rightarrow> locals \<Rightarrow> exn + pyval \<times> locals) \<Rightarrow> string \<Rightarrow> locals \<Rightarrow> exn + pyval \<times> locals"
where
  "index_divisor py_eval denominator fr =
     (case py_eval (rename_bands denominator) fr of
        Inl e \<Rightarrow> Inl e
      | Inr (v, fr') \<Rightarrow> Inr (py_add_float v eps, fr'))"

text \<open>
  The value of \<open>num\<close> when the division is reached: the second evaluation may have
  changed the array that \<open>num\<close> refers to, but not the variable, which stays bound (a
  frame without \<open>num\<close>, which \<^verbatim>\<open>eval\<close> cannot produce, leaves the value as it was).
\<close>

definition num_after :: "locals \<Rightarrow> pyval \<Rightarrow> pyval" where
  "num_after fr num = (case loc_num fr of Some v \<Rightarrow> v | None \<Rightarrow> num)"

text \<open>
  The values of \<open>num\<close> and \<open>den\<close> when the statement \<^verbatim>\<open>return num / den\<close> is
  reached.
\<close>

definition index_operands ::
  "(string \<Rightarrow> locals \<Rightarrow> exn + pyval \<times> locals) \<Rightarrow> ndarray \<Rightarrow> ndarray \<Rightarrow> string \<Rightarrow> string
     \<Rightarrow> exn + pyval \<times> pyval"
where
  "index_operands py_eval nir_array red_array numerator denominator =
     (let b1 = astype_float32 red_array;
          b2 = astype_float32 nir_array;
          fr = \<lparr>loc_nir_array = nir_array, loc_red_array = red_array,
                loc_numerator = numerator, loc_denominator = denominator,
                loc_b1 = b1, loc_b2 = b2, loc_num = None\<rparr>
      in case py_eval (rename_bands numerator) fr of
           Inl e \<Rightarrow> Inl e
         | Inr (num, fr1) \<Rightarrow>
             (case index_divisor py_eval denominator (fr1\<lparr>loc_num := Some num\<rparr>) of
                Inl e \<Rightarrow> Inl e
              | Inr (den, fr2) \<Rightarrow> Inr (num_after fr2 num, den)))"

definition compute_index ::
  "(string \<Rightarrow> locals \<Rightarrow> exn + pyval \<times> locals) \<Rightarrow> ndarray \<Rightarrow> ndarray \<Rightarrow> string \<Rightarrow> string
     \<Rightarrow> exn + pyval"
where
  "compute_index py_eval nir_array red_array numerator denominator =
     (case index_operands py_eval nir_array red_array numerator denominator of
        Inl e \<Rightarrow> Inl e
      | Inr (num, den) \<Rightarrow> py_truediv num den)"

subsection \<open>Fetching a tile\<close>

text \<open>
  The libraries behind the fetch: \<^verbatim>\<open>mercantile.tile(lng, lat, zoom)\<close>, the tile
  engine's \<^verbatim>\<open>cached_generate_tile\<close> (the construction of the \<open>TileProcessor\<close> and
  the event loop that runs the coroutine to completion included), and
  \<^verbatim>\<open>Image.open(BytesIO(image_bytes))\<close>. Each returns its result or the exception it
  raises.
\<close>

record tile_request =
  req_x :: int
  req_y :: int
  req_z :: int
  req_start_date :: string
  req_end_date :: string
  req_cloud_cover :: int
  req_band1 :: string
  req_band2 :: string
  req_formula :: string
  req_colormap_str :: string

record ('img, 'feat) externals =
  mercantile_tile :: "rat \<Rightarrow> rat \<Rightarrow> int \<Rightarrow> exn + (int \<times> int \<times> int)"
  cached_generate_tile :: "tile_request \<Rightarrow> exn + (string \<times> 'feat)"
  image_open :: "string \<Rightarrow> exn + 'img"

definition fetch_index_tile ::
  "('img, 'feat) externals \<Rightarrow> rat \<Rightarrow> rat \<Rightarrow> int \<Rightarrow> string \<Rightarrow> string \<Rightarrow> int \<Rightarrow> string \<Rightarrow> string
     \<Rightarrow> string \<Rightarrow> string \<Rightarrow> exn + ('img \<times> 'feat \<times> (int \<times> int \<times> int))"
where
  "fetch_index_tile ext lat lon zoom start_date end_date cloud_cover band1 band2 formula
       colormap_str =
     (case mercantile_tile ext lon lat zoom of
        Inl e \<Rightarrow> Inl e
      | Inr (x, y, z) \<Rightarrow>
          (case cached_generate_tile ext
                  \<lparr>req_x = x, req_y = y, req_z = z,
                   req_start_date = start_date, req_end_date = end_date,
                   req_cloud_cover = cloud_cover,
                   req_band1 = band1, req_band2 = band2,
                   req_formula = formula, req_colormap_str = colormap_str\<rparr> of
             Inl e \<Rightarrow> Inl e
           | Inr (image_bytes, feature) \<Rightarrow>
               (case image_open ext image_bytes of
                  Inl e \<Rightarrow> Inl e
                | Inr img \<Rightarrow> Inr (img, feature, (x, y, z)))))"

text \<open>
  \<open>fetch_ndvi_tile\<close> (\<^verbatim>\<open>src/Other_Trials/A4_utils.py\<close>) fixes the bands, the formula
  and the colormap, and returns \<^verbatim>\<open>image, feature\<close>.
\<close>

definition fetch_ndvi_tile ::
  "('img, 'feat) externals \<Rightarrow> rat \<Rightarrow> rat \<Rightarrow> int \<Rightarrow> string \<Rightarrow> string \<Rightarrow> int
     \<Rightarrow> exn + ('img \<times> 'feat)"
where
  "fetch_ndvi_tile ext lat lon zoom start_date end_date cloud_cover =
     (case mercantile_tile ext lon lat zoom of
        Inl e \<Rightarrow> Inl e
      | Inr (x, y, z) \<Rightarrow>
          (case cached_generate_tile ext
                  \<lparr>req_x = x, req_y = y, req_z = z,
                   req_start_date = start_date, req_end_date = end_date,
                   req_cloud_cover = cloud_cover,
                   req_band1 = ''red'', req_band2 = ''nir'',
                   req_formula = ''(band2-band1)/(band2+band1)'',
                   req_colormap_str = ''RdYlGn''\<rparr> of
             Inl e \<Rightarrow> Inl e
           | Inr (image_bytes, feature) \<Rightarrow>
               (case image_open ext image_bytes of
                  Inl e \<Rightarrow> Inl e
                | Inr img \<Rightarrow> Inr (img, feature))))"

subsection \<open>Calls on an instance\<close>

text \<open>
  The methods of the class, as calls on an instance. Only \<open>add_tile\<close> assigns to
  \<open>self.tiles\<close>; \<open>list_tiles\<close> returns a new list of the keys, \<open>get_tile\<close> a stored
  pair and \<open>save_all\<close> only reads the dictionary, so the instance after these calls is
  the instance before them.
\<close>

datatype ('img, 'meta) method_call =
    Add_tile string 'img 'meta "int list"
  | List_tiles
  | Get_tile string "int list"
  | Save_all string

fun after_call :: "('img, 'meta) VirtualCube \<Rightarrow> ('img, 'meta) method_call \<Rightarrow> ('img, 'meta) VirtualCube"
where
  "after_call self (Add_tile name img metadata coords) = add_tile self name img metadata coords"
| "after_call self List_tiles = self"
| "after_call self (Get_tile name coords) = self"
| "after_call self (Save_all output_folder) = self"

definition after_calls ::
  "('img, 'meta) VirtualCube \<Rightarrow> ('img, 'meta) method_call list \<Rightarrow> ('img, 'meta) VirtualCube"
where
  "after_calls self calls = foldl after_call self calls"

subsection \<open>Elements of a value\<close>






subsection \<open>The index of the glossary\<close>


subsection \<open>Environments for the examples\<close>

text \<open>
  What \<^verbatim>\<open>eval\<close> does on the two default expressions after the bands are renamed:
  it applies the \<^verbatim>\<open>float32\<close> array operator to \<open>b2\<close> and \<open>b1\<close> and changes no
  variable. \<open>eval_defaults\<close> says that an evaluator agrees with Python on the two default
  expressions.
\<close>

definition eval_result :: "locals \<Rightarrow> exn + ndarray \<Rightarrow> exn + pyval \<times> locals" where
  "eval_result fr r = (case r of Inl e \<Rightarrow> Inl e | Inr xs \<Rightarrow> Inr (NdArray xs, fr))"


text \<open>
  An evaluator for the examples. It knows seven expressions, on which it does what Python
  does: the two default expressions, the names \<open>b1\<close> and \<open>b2\<close>, the in-place
  subtraction \<^verbatim>\<open>b2.__isub__(1e-6)\<close>, which changes the array \<open>b2\<close> and returns it
  (known as a numerator only, when \<open>num\<close> is not bound yet and no other variable refers
  to the array), and the \<^verbatim>\<open>float\<close> literals \<^verbatim>\<open>1.0\<close> and \<^verbatim>\<open>-1e-6\<close>. On the
  incomplete expressions \<^verbatim>\<open>b2-\<close> and \<^verbatim>\<open>b2+\<close> of the examples Python raises
  \<open>SyntaxError\<close>, and so does this evaluator on every other text.
\<close>

definition sample_eval :: "string \<Rightarrow> locals \<Rightarrow> exn + pyval \<times> locals" where
  "sample_eval expr fr =
     (if expr = ''b2-b1'' then
        eval_result fr (np_binop (fsub binary32) (loc_b2 fr) (loc_b1 fr))
      else if expr = ''b2+b1'' then
        eval_result fr (np_binop (fadd binary32) (loc_b2 fr) (loc_b1 fr))
      else if expr = ''b1'' then Inr (NdArray (loc_b1 fr), fr)
      else if expr = ''b2'' then Inr (NdArray (loc_b2 fr), fr)
      else if expr = ''b2.__isub__(1e-6)'' \<and> loc_num fr = None then
        (let b2 = np_add_float (loc_b2 fr) (fneg eps)
         in Inr (NdArray b2, fr\<lparr>loc_b2 := b2\<rparr>))
      else if expr = ''1.0'' then Inr (PyFloat (Fin 1), fr)
      else if expr = ''-1e-6'' then Inr (PyFloat (fneg eps), fr)
      else Inl (Raised ''SyntaxError''))"

text \<open>
  Libraries for the examples, with images and features as strings. At zoom level 0 the
  whole map is the tile \<open>(0, 0, 0)\<close>; the sample tiling knows no other level, and like
  mercantile it raises \<open>InvalidLatitudeError\<close> at the poles. The sample
  engine answers every request with the same bytes and feature; the offline engine raises
  on every request, as without a network. Opening the bytes \<^verbatim>\<open>not a png\<close> raises.
\<close>

definition sample_tile :: "rat \<Rightarrow> rat \<Rightarrow> int \<Rightarrow> exn + (int \<times> int \<times> int)" where
  "sample_tile lng lat zoom =
     (if lat \<le> - 90 \<or> 90 \<le> lat then Inl (Raised ''InvalidLatitudeError'')
      else if zoom = 0 then Inr (0, 0, 0)
      else Inl (Raised ''sample tiling: zoom level 0 only''))"

definition sample_open :: "string \<Rightarrow> exn + string" where
  "sample_open image_bytes =
     (if image_bytes = ''not a png'' then Inl (Raised ''UnidentifiedImageError'')
      else Inr image_bytes)"

definition sample_externals :: "(string, string) externals" where
  "sample_externals =
     \<lparr>mercantile_tile = sample_tile,
      cached_generate_tile = (\<lambda>request. Inr (''png bytes'', ''feature'')),
      image_open = sample_open\<rparr>"

definition offline_externals :: "(string, string) externals" where
  "offline_externals =
     \<lparr>mercantile_tile = sample_tile,
      cached_generate_tile = (\<lambda>request. Inl (Raised ''ConnectionError'')),
      image_open = sample_open\<rparr>"

definition corrupt_externals :: "(string, string) externals" where
  "corrupt_externals =
     \<lparr>mercantile_tile = sample_tile,
      cached_generate_tile = (\<lambda>request. Inr (''not a png'', ''feature'')),
      image_open = sample_open\<rparr>"

text \<open>A disk on which every save fails.\<close>

definition disk_full :: "'img \<Rightarrow> string \<Rightarrow> ('fid, 'img) world \<Rightarrow> exn option" where
  "disk_full img filename w = Some (Raised ''OSError'')"

section \<open>Properties\<close>

subsection \<open>Dictionary lemmas\<close>

lemma dict_get_setitem_same: "dict_get (dict_setitem d k v) k = Some v"
  by (induction d) auto

lemma dict_get_setitem_other: "k' \<noteq> k \<Longrightarrow> dict_get (dict_setitem d k v) k' = dict_get d k'"
  by (induction d) auto

lemma dict_get_None_iff: "dict_get d k = None \<longleftrightarrow> k \<notin> set (dict_keys d)"
  by (induction d) (force simp: dict_keys_def)+

lemma dict_keys_setitem:
  "dict_keys (dict_setitem d k v) =
     (if k \<in> set (dict_keys d) then dict_keys d else dict_keys d @ [k])"
  by (induction d) (force simp: dict_keys_def)+

lemma length_dict_setitem_present:
  "k \<in> set (dict_keys d) \<Longrightarrow> length (dict_setitem d k v) = length d"
  by (induction d) (force simp: dict_keys_def)+

lemma distinct_dict_setitem:
  "distinct (dict_keys d) \<Longrightarrow> distinct (dict_keys (dict_setitem d k v))"
  by (simp add: dict_keys_setitem)

subsection \<open>Store and retrieve\<close>

text \<open>
  C1. After \<open>add_tile(name, image, metadata, coords)\<close>, \<open>get_tile(name, coords)\<close> with
  the same name and coordinates returns the stored pair \<open>(image, metadata)\<close>, for every
  cube, name, image, metadata and coordinate sequence (the triples \<open>[x, y, z]\<close> among
  them).
\<close>

theorem get_tile_add_tile:
  "get_tile (add_tile self name img metadata coords) name coords = Some (img, metadata)"
  by (simp add: get_tile_def add_tile_def dict_get_setitem_same)

text \<open>
  C9. If no entry is stored under the key \<open>(*coords, name)\<close>, \<open>get_tile(name, coords)\<close>
  returns \<open>None\<close>; it raises nothing (the result of \<open>get_tile\<close> is a value, never an
  exception).
\<close>

theorem get_tile_missing:
  "(coords, name) \<notin> set (list_tiles self) \<Longrightarrow> get_tile self name coords = None"
  by (simp add: get_tile_def list_tiles_def dict_get_None_iff)

text \<open>The hypothesis holds for the name \<open>ndwi\<close> in a cube that stores \<open>ndvi\<close> only.\<close>

theorem get_tile_missing_witness:
  "(([1, 2, 3], ''ndwi'') \<notin> set (list_tiles (add_tile init ''ndvi'' (7::nat) (8::nat) [1, 2, 3])))
   \<and> get_tile (add_tile init ''ndvi'' (7::nat) (8::nat) [1, 2, 3]) ''ndwi'' [1, 2, 3] = None"
  using get_tile_missing [of "[1, 2, 3]" "''ndwi''" "add_tile init ''ndvi'' (7::nat) (8::nat) [1, 2, 3]"]
  by (simp add: list_tiles_def add_tile_def init_def dict_keys_def)

subsection \<open>Overwriting\<close>

text \<open>
  C10. \<open>add_tile\<close> is last-write-wins: after two calls with the same name and coordinates,
  \<open>get_tile\<close> returns the second payload, and the second call leaves the list of stored
  keys, hence their number, as the first call left it. (The payloads may differ or not.)
\<close>

theorem add_tile_last_write_wins:
  "get_tile (add_tile (add_tile self name img1 meta1 coords) name img2 meta2 coords) name coords
     = Some (img2, meta2)
   \<and> list_tiles (add_tile (add_tile self name img1 meta1 coords) name img2 meta2 coords)
     = list_tiles (add_tile self name img1 meta1 coords)
   \<and> length (list_tiles (add_tile (add_tile self name img1 meta1 coords) name img2 meta2 coords))
     = length (list_tiles (add_tile self name img1 meta1 coords))"
  by (simp add: get_tile_def add_tile_def list_tiles_def dict_get_setitem_same dict_keys_setitem)

subsection \<open>No eviction\<close>

lemma list_tiles_add_tile_mono: "set (list_tiles self) \<subseteq> set (list_tiles (add_tile self name img metadata coords))"
  by (auto simp: list_tiles_def add_tile_def dict_keys_setitem)

lemma list_tiles_after_call_mono: "set (list_tiles self) \<subseteq> set (list_tiles (after_call self c))"
  by (cases c) (simp_all add: list_tiles_add_tile_mono)

lemma list_tiles_after_calls_mono: "set (list_tiles self) \<subseteq> set (list_tiles (after_calls self cs))"
  unfolding after_calls_def
proof (induction cs arbitrary: self)
  case Nil
  then show ?case by simp
next
  case (Cons c cs)
  have "set (list_tiles self) \<subseteq> set (list_tiles (after_call self c))"
    by (rule list_tiles_after_call_mono)
  also have "\<dots> \<subseteq> set (list_tiles (foldl after_call (after_call self c) cs))"
    by (rule Cons.IH)
  finally show ?case by simp
qed

text \<open>
  C7. The store never evicts: \<open>add_tile\<close> under the key \<open>(coords, name)\<close> leaves the entry
  under every other key as it was, and a key that is stored stays stored after any sequence
  of calls of the methods of the class.
\<close>

theorem virtual_cube_no_eviction:
  "((coords', name') \<noteq> (coords, name) \<longrightarrow>
      get_tile (add_tile self name img metadata coords) name' coords' = get_tile self name' coords')
   \<and> (key \<in> set (list_tiles self) \<longrightarrow> key \<in> set (list_tiles (after_calls self calls)))"
proof (intro conjI impI)
  assume "(coords', name') \<noteq> (coords, name)"
  then show "get_tile (add_tile self name img metadata coords) name' coords' = get_tile self name' coords'"
    by (simp add: get_tile_def add_tile_def dict_get_setitem_other)
next
  assume "key \<in> set (list_tiles self)"
  then show "key \<in> set (list_tiles (after_calls self calls))"
    using list_tiles_after_calls_mono by blast
qed

text \<open>
  Both hypotheses hold for the entry \<open>ndwi\<close> of a cube on which the four methods are then
  called.
\<close>

theorem virtual_cube_no_eviction_witness:
  "([1, 2, 3], ''ndwi'') \<noteq> ([1, 2, 3], ''ndvi'')
   \<and> get_tile (add_tile (add_tile init ''ndwi'' (5::nat) (6::nat) [1, 2, 3]) ''ndvi'' 7 8 [1, 2, 3])
         ''ndwi'' [1, 2, 3] = Some (5, 6)
   \<and> ([1, 2, 3], ''ndwi'') \<in> set (list_tiles (add_tile init ''ndwi'' (5::nat) (6::nat) [1, 2, 3]))
   \<and> ([1, 2, 3], ''ndwi'') \<in> set (list_tiles (after_calls (add_tile init ''ndwi'' (5::nat) (6::nat) [1, 2, 3])
         [Add_tile ''ndvi'' 7 8 [1, 2, 3], List_tiles, Save_all ''out'', Get_tile ''ndwi'' [1, 2, 3],
          Add_tile ''ndwi'' 9 10 [1, 2, 3]]))"
  using virtual_cube_no_eviction [of "[1, 2, 3]" "''ndwi''" "[1, 2, 3]" "''ndvi''"
      "add_tile init ''ndwi'' (5::nat) (6::nat) [1, 2, 3]" 7 8 "([1, 2, 3], ''ndwi'')"
      "[Add_tile ''ndvi'' 7 8 [1, 2, 3], List_tiles, Save_all ''out'', Get_tile ''ndwi'' [1, 2, 3],
          Add_tile ''ndwi'' 9 10 [1, 2, 3]]"]
  by (simp add: get_tile_def list_tiles_def add_tile_def init_def dict_keys_def)

subsection \<open>File names\<close>

lemma digit_char_inj: "a < 10 \<Longrightarrow> b < 10 \<Longrightarrow> digit_char a = digit_char b \<Longrightarrow> a = b"
proof -
  assume a: "a < 10" and b: "b < 10" and e: "digit_char a = digit_char b"
  have d: "distinct ''0123456789''" by simp
  have "a < length ''0123456789''" "b < length ''0123456789''" using a b by simp_all
  with d e show "a = b" unfolding digit_char_def by (simp only: nth_eq_iff_index_eq)
qed

lemma digit_char_in: "d < 10 \<Longrightarrow> digit_char d \<in> set ''0123456789''"
  unfolding digit_char_def by (rule nth_mem) simp

lemma str_nat_chars: "set (str_nat n) \<subseteq> set ''0123456789''"
proof (induction n rule: str_nat.induct)
  case (1 n)
  show ?case
  proof (cases "n < 10")
    case True
    then show ?thesis using digit_char_in [of n] by (subst str_nat.simps) simp
  next
    case False
    have "n mod 10 < 10" by simp
    then have "digit_char (n mod 10) \<in> set ''0123456789''" by (rule digit_char_in)
    with False "1.IH" show ?thesis by (subst str_nat.simps) simp
  qed
qed

lemma str_nat_nonempty: "str_nat n \<noteq> []"
  by (subst str_nat.simps) simp

lemma str_nat_inj: "str_nat n = str_nat m \<Longrightarrow> n = m"
proof (induction n arbitrary: m rule: str_nat.induct)
  case (1 n)
  show ?case
  proof (cases "n < 10")
    case n: True
    show ?thesis
    proof (cases "m < 10")
      case True
      with n "1.prems" show ?thesis
        by (simp add: str_nat.simps [of n] str_nat.simps [of m] digit_char_inj)
    next
      case False
      with n "1.prems" show ?thesis
        using str_nat_nonempty [of "m div 10"]
        by (simp add: str_nat.simps [of n] str_nat.simps [of m])
    qed
  next
    case n: False
    show ?thesis
    proof (cases "m < 10")
      case True
      with n "1.prems" show ?thesis
        using str_nat_nonempty [of "n div 10"]
        by (simp add: str_nat.simps [of n] str_nat.simps [of m])
    next
      case False
      with n "1.prems" have e: "str_nat (n div 10) = str_nat (m div 10)"
        and d: "digit_char (n mod 10) = digit_char (m mod 10)"
        by (simp_all add: str_nat.simps [of n] str_nat.simps [of m])
      from n e have "n div 10 = m div 10" by (rule "1.IH")
      moreover from d have "n mod 10 = m mod 10" by (intro digit_char_inj) simp_all
      ultimately show ?thesis by (metis div_mult_mod_eq)
    qed
  qed
qed

lemma str_int_chars: "CHR ''_'' \<notin> set (str_int i)"
  using str_nat_chars by (auto simp: str_int_def)

lemma str_int_inj: "str_int i = str_int j \<Longrightarrow> i = j"
proof -
  assume e: "str_int i = str_int j"
  have neg: "CHR ''-'' # str_nat a \<noteq> str_nat b" for a b
  proof
    assume "CHR ''-'' # str_nat a = str_nat b"
    then have "CHR ''-'' \<in> set (str_nat b)" by (metis list.set_intros(1))
    with str_nat_chars [of b] show False by auto
  qed
  show "i = j"
  proof (cases "i < 0")
    case i: True
    show ?thesis
    proof (cases "j < 0")
      case True
      with i e have "str_nat (nat (- i)) = str_nat (nat (- j))" by (simp add: str_int_def)
      then have "nat (- i) = nat (- j)" by (rule str_nat_inj)
      with i True show ?thesis by simp
    next
      case False
      with i e neg [of "nat (- i)" "nat j"] show ?thesis by (simp add: str_int_def)
    qed
  next
    case i: False
    show ?thesis
    proof (cases "j < 0")
      case True
      with i e neg [of "nat (- j)" "nat i"] show ?thesis by (simp add: str_int_def)
    next
      case False
      with i e have "str_nat (nat i) = str_nat (nat j)" by (simp add: str_int_def)
      then have "nat i = nat j" by (rule str_nat_inj)
      with i False show ?thesis by simp
    qed
  qed
qed

lemma split_at_last:
  "c \<notin> set b \<Longrightarrow> c \<notin> set b' \<Longrightarrow> a @ c # b = a' @ c # b' \<Longrightarrow> a = a' \<and> b = b'"
proof (induction a arbitrary: a')
  case Nil
  then show ?case by (cases a') auto
next
  case (Cons h t)
  then show ?case by (cases a') auto
qed

lemma cube_filename_inj:
  assumes "cube_filename output_folder name x y z = cube_filename output_folder name' x' y' z'"
  shows "name = name' \<and> x = x' \<and> y = y' \<and> z = z'"
proof -
  let ?u = "CHR ''_''"
  from assms have "(name @ ?u # str_int z @ ?u # str_int x) @ ?u # str_int y
      = (name' @ ?u # str_int z' @ ?u # str_int x') @ ?u # str_int y'"
    by (simp add: cube_filename_def)
  then have 1: "name @ ?u # str_int z @ ?u # str_int x = name' @ ?u # str_int z' @ ?u # str_int x'"
    and y: "str_int y = str_int y'"
    using split_at_last [OF str_int_chars str_int_chars] by blast+
  from 1 have "(name @ ?u # str_int z) @ ?u # str_int x = (name' @ ?u # str_int z') @ ?u # str_int x'"
    by simp
  then have 2: "name @ ?u # str_int z = name' @ ?u # str_int z'" and x: "str_int x = str_int x'"
    using split_at_last [OF str_int_chars str_int_chars] by blast+
  from 2 have n: "name = name'" and z: "str_int z = str_int z'"
    using split_at_last [OF str_int_chars str_int_chars] by blast+
  from n x y z show ?thesis by (auto dest: str_int_inj)
qed

text \<open>
  C5. \<open>save_tile_image\<close> of \<^verbatim>\<open>src/a_4_utils.py\<close> passes the image and the path
  \<^verbatim>\<open><folder>/tile_<z>_<x>_<y>.png\<close>, the components in the order z, x, y, to
  \<^verbatim>\<open>Image.save\<close>, so that the file this path names holds the image, and prints the
  line that names the path, whenever \<^verbatim>\<open>Image.save\<close> does not raise. The function of
  the same name in \<^verbatim>\<open>src/Other_Trials/A4_utils.py\<close> writes to
  \<^verbatim>\<open><folder>/tile_<x>_<y>_<z>.png\<close> instead.
\<close>

theorem save_tile_image_path:
  "(save_raises img (output_folder @ ''/tile_'' @ str_int z @ ''_'' @ str_int x @ ''_'' @ str_int y @ ''.png'') w = None \<longrightarrow>
      save_tile_image resolve save_raises img x y z output_folder w =
        Inr \<lparr>files = (files w)(resolve (output_folder @ ''/tile_'' @ str_int z @ ''_'' @ str_int x @ ''_'' @ str_int y @ ''.png'') \<mapsto> img),
             save_log = save_log w @ [(output_folder @ ''/tile_'' @ str_int z @ ''_'' @ str_int x @ ''_'' @ str_int y @ ''.png'', img)],
             stdout = stdout w @ [''Saved tile image as: '' @ output_folder @ ''/tile_'' @ str_int z @ ''_'' @ str_int x @ ''_'' @ str_int y @ ''.png'']\<rparr>)
   \<and> (save_raises img (output_folder @ ''/tile_'' @ str_int x @ ''_'' @ str_int y @ ''_'' @ str_int z @ ''.png'') w = None \<longrightarrow>
      trials_save_tile_image resolve save_raises img x y z output_folder w =
        Inr \<lparr>files = (files w)(resolve (output_folder @ ''/tile_'' @ str_int x @ ''_'' @ str_int y @ ''_'' @ str_int z @ ''.png'') \<mapsto> img),
             save_log = save_log w @ [(output_folder @ ''/tile_'' @ str_int x @ ''_'' @ str_int y @ ''_'' @ str_int z @ ''.png'', img)],
             stdout = stdout w @ [''Saved tile image as: '' @ output_folder @ ''/tile_'' @ str_int x @ ''_'' @ str_int y @ ''_'' @ str_int z @ ''.png'']\<rparr>)"
  by (simp add: save_tile_image_def trials_save_tile_image_def tile_filename_def
      trials_tile_filename_def image_save_def py_print_def Let_def)

lemma posix_resolve_examples:
  "posix_resolve ''out/tile_3_1_2.png'' = (False, [''out'', ''tile_3_1_2.png''])"
  "posix_resolve ''out/tile_1_2_3.png'' = (False, [''out'', ''tile_1_2_3.png''])"
  "posix_resolve ''out/ndvi_3_1_2.png'' = (False, [''out'', ''ndvi_3_1_2.png''])"
  "posix_resolve ''out/ndwi_6_4_5.png'' = (False, [''out'', ''ndwi_6_4_5.png''])"
  "posix_resolve ''out/other.png'' = (False, [''out'', ''other.png''])"
  "posix_resolve ''out/a_3_1_2.png'' = (False, [''out'', ''a_3_1_2.png''])"
  "posix_resolve ''out//a_3_1_2.png'' = (False, [''out'', ''a_3_1_2.png''])"
  by (simp_all add: posix_resolve_def)

text \<open>For x = 1, y = 2, z = 3 and the folder \<open>out\<close> the two files are named as follows.\<close>

theorem save_tile_image_path_witness:
  "never_raises (7::nat) ''out/tile_3_1_2.png'' (empty_world :: (bool \<times> string list, nat) world) = None
   \<and> save_tile_image posix_resolve never_raises (7::nat) 1 2 3 ''out'' empty_world =
       Inr \<lparr>files = [(False, [''out'', ''tile_3_1_2.png'']) \<mapsto> 7],
            save_log = [(''out/tile_3_1_2.png'', 7)],
            stdout = [''Saved tile image as: out/tile_3_1_2.png'']\<rparr>
   \<and> never_raises (7::nat) ''out/tile_1_2_3.png'' (empty_world :: (bool \<times> string list, nat) world) = None
   \<and> trials_save_tile_image posix_resolve never_raises (7::nat) 1 2 3 ''out'' empty_world =
       Inr \<lparr>files = [(False, [''out'', ''tile_1_2_3.png'']) \<mapsto> 7],
            save_log = [(''out/tile_1_2_3.png'', 7)],
            stdout = [''Saved tile image as: out/tile_1_2_3.png'']\<rparr>"
  using save_tile_image_path [of never_raises "7::nat" "''out''" 3 1 2
      "empty_world :: (bool \<times> string list, nat) world" posix_resolve]
  by (simp add: never_raises_def empty_world_def str_int_def str_nat.simps digit_char_def
      posix_resolve_examples)

text \<open>
  The claim as stated, for both functions, fails on the one of \<^verbatim>\<open>Other_Trials\<close>:
  for x = 1, y = 2, z = 3 it writes \<^verbatim>\<open>out/tile_1_2_3.png\<close>, and no file
  \<^verbatim>\<open>out/tile_3_1_2.png\<close>.
\<close>

theorem trials_save_tile_image_counterexample:
  "trials_save_tile_image posix_resolve never_raises (7::nat) 1 2 3 ''out'' empty_world =
       Inr \<lparr>files = [(False, [''out'', ''tile_1_2_3.png'']) \<mapsto> 7],
            save_log = [(''out/tile_1_2_3.png'', 7)],
            stdout = [''Saved tile image as: out/tile_1_2_3.png'']\<rparr>
   \<and> [(False, [''out'', ''tile_1_2_3.png'']) \<mapsto> 7::nat] (posix_resolve ''out/tile_3_1_2.png'') = None"
  by (simp add: trials_save_tile_image_def trials_tile_filename_def image_save_def py_print_def
      Let_def never_raises_def empty_world_def str_int_def str_nat.simps digit_char_def
      posix_resolve_examples)

subsection \<open>Saving a cube\<close>

lemma list3: "length (c::'a list) = 3 \<Longrightarrow> c = [c ! 0, c ! 1, c ! 2]"
  by (auto simp: numeral_3_eq_3 length_Suc_conv)

lemma key_filename_inj:
  assumes "length (fst k) = 3" and "length (fst k') = 3"
    and "key_filename output_folder k = key_filename output_folder k'"
  shows "k = k'"
proof -
  obtain c n where k: "k = (c, n)" by (cases k)
  obtain c' n' where k': "k' = (c', n')" by (cases k')
  from assms(3) have "n = n' \<and> c ! 0 = c' ! 0 \<and> c ! 1 = c' ! 1 \<and> c ! 2 = c' ! 2"
    unfolding k k' key_filename_def by (auto dest: cube_filename_inj)
  moreover have "c = [c ! 0, c ! 1, c ! 2]"
    by (rule list3) (use assms(1) k in simp)
  moreover have "c' = [c' ! 0, c' ! 1, c' ! 2]"
    by (rule list3) (use assms(2) k' in simp)
  ultimately show ?thesis unfolding k k' by metis
qed

lemma save_all_loop_Cons:
  "save_all_loop resolve save_raises output_folder (((coords, name), (img, meta)) # items) w = Inr w' \<longleftrightarrow>
     length coords = 3 \<and>
     (\<exists>w1. image_save resolve save_raises img (key_filename output_folder (coords, name)) w = Inr w1
        \<and> save_all_loop resolve save_raises output_folder items w1 = Inr w')"
  by (auto simp: Let_def key_filename_def split: sum.splits)

lemma image_save_files:
  "image_save resolve save_raises img filename w = Inr w1
     \<Longrightarrow> files w1 = (files w)(resolve filename \<mapsto> img)"
  by (auto simp: image_save_def split: option.splits)

lemma image_save_log:
  "image_save resolve save_raises img filename w = Inr w1
     \<Longrightarrow> save_log w1 = save_log w @ [(filename, img)]"
  by (auto simp: image_save_def split: option.splits)

lemma save_all_loop_lengths:
  "save_all_loop resolve save_raises output_folder items w = Inr w' \<Longrightarrow> k \<in> set (dict_keys items)
     \<Longrightarrow> length (fst k) = 3"
proof (induction items arbitrary: w)
  case Nil
  then show ?case by (simp add: dict_keys_def)
next
  case (Cons entry items)
  obtain coords name img meta where e: "entry = ((coords, name), (img, meta))"
    by (cases entry) auto
  from Cons.prems(1) obtain w1 where len: "length coords = 3"
    and r: "save_all_loop resolve save_raises output_folder items w1 = Inr w'"
    unfolding e save_all_loop_Cons by blast
  from Cons.prems(2) have "k = (coords, name) \<or> k \<in> set (dict_keys items)"
    by (simp add: dict_keys_def e)
  then show ?case
  proof
    assume "k = (coords, name)"
    with len show ?thesis by simp
  next
    assume "k \<in> set (dict_keys items)"
    with r show ?thesis by (rule Cons.IH)
  qed
qed

lemma save_all_loop_log:
  "save_all_loop resolve save_raises output_folder items w = Inr w'
     \<Longrightarrow> save_log w' = save_log w @ entry_saves output_folder items"
proof (induction items arbitrary: w)
  case Nil
  then show ?case by (simp add: entry_saves_def)
next
  case (Cons entry items)
  obtain coords name img meta where e: "entry = ((coords, name), (img, meta))"
    by (cases entry) auto
  from Cons.prems obtain w1 where
    s: "image_save resolve save_raises img (key_filename output_folder (coords, name)) w = Inr w1"
    and r: "save_all_loop resolve save_raises output_folder items w1 = Inr w'"
    unfolding e save_all_loop_Cons by blast
  have "save_log w' = save_log w1 @ entry_saves output_folder items"
    using r by (rule Cons.IH)
  also have "save_log w1 = save_log w @ [(key_filename output_folder (coords, name), img)]"
    using s by (rule image_save_log)
  finally show ?case by (simp add: entry_saves_def e)
qed

lemma save_all_loop_frame:
  "save_all_loop resolve save_raises output_folder items w = Inr w'
     \<Longrightarrow> f \<notin> (\<lambda>k. resolve (key_filename output_folder k)) ` set (dict_keys items)
     \<Longrightarrow> files w' f = files w f"
proof (induction items arbitrary: w)
  case Nil
  then show ?case by simp
next
  case (Cons entry items)
  obtain coords name img meta where e: "entry = ((coords, name), (img, meta))"
    by (cases entry) auto
  from Cons.prems(1) obtain w1 where
    s: "image_save resolve save_raises img (key_filename output_folder (coords, name)) w = Inr w1"
    and r: "save_all_loop resolve save_raises output_folder items w1 = Inr w'"
    unfolding e save_all_loop_Cons by blast
  from Cons.prems(2) have p0: "f \<noteq> resolve (key_filename output_folder (coords, name))"
    and pr: "f \<notin> (\<lambda>k. resolve (key_filename output_folder k)) ` set (dict_keys items)"
    by (auto simp: dict_keys_def e)
  have "files w' f = files w1 f" using r pr by (rule Cons.IH)
  also have "\<dots> = files w f" using image_save_files [OF s] p0 by simp
  finally show ?case .
qed

lemma save_all_loop_written:
  "save_all_loop resolve save_raises output_folder items w = Inr w'
     \<Longrightarrow> distinct (dict_keys items)
     \<Longrightarrow> inj_on (\<lambda>k. resolve (key_filename output_folder k)) (set (dict_keys items))
     \<Longrightarrow> dict_get items k = Some (img, meta)
     \<Longrightarrow> files w' (resolve (key_filename output_folder k)) = Some img"
proof (induction items arbitrary: w)
  case Nil
  then show ?case by simp
next
  case (Cons entry items)
  let ?g = "\<lambda>k. resolve (key_filename output_folder k)"
  obtain coords name img0 meta0 where e: "entry = ((coords, name), (img0, meta0))"
    by (cases entry) auto
  from Cons.prems(1) obtain w1 where
    s: "image_save resolve save_raises img0 (key_filename output_folder (coords, name)) w = Inr w1"
    and r: "save_all_loop resolve save_raises output_folder items w1 = Inr w'"
    unfolding e save_all_loop_Cons by blast
  from Cons.prems(2) have fresh: "(coords, name) \<notin> set (dict_keys items)"
    and d: "distinct (dict_keys items)"
    by (simp_all add: dict_keys_def e)
  from Cons.prems(3) have inj: "inj_on ?g (insert (coords, name) (set (dict_keys items)))"
    by (simp add: dict_keys_def e)
  then have inj': "inj_on ?g (set (dict_keys items))"
    by (rule inj_on_subset) blast
  show ?case
  proof (cases "k = (coords, name)")
    case True
    with Cons.prems(4) have i: "img = img0" by (simp add: e)
    have "?g (coords, name) \<notin> ?g ` set (dict_keys items)"
    proof
      assume "?g (coords, name) \<in> ?g ` set (dict_keys items)"
      then obtain k' where k': "k' \<in> set (dict_keys items)" and eq: "?g (coords, name) = ?g k'"
        by blast
      from inj eq k' have "(coords, name) = k'" by (auto dest: inj_onD)
      with k' fresh show False by simp
    qed
    with r have "files w' (?g (coords, name)) = files w1 (?g (coords, name))"
      by (rule save_all_loop_frame)
    also have "\<dots> = Some img0" using image_save_files [OF s] by simp
    finally show ?thesis using True i by simp
  next
    case False
    with Cons.prems(4) have "dict_get items k = Some (img, meta)" by (simp add: e)
    with r d inj' show ?thesis by (rule Cons.IH)
  qed
qed

lemma inj_on_key_filename:
  assumes "\<And>k. k \<in> set ks \<Longrightarrow> length (fst k) = 3"
  shows "inj_on (key_filename output_folder) (set ks)"
proof (rule inj_onI)
  fix k k'
  assume "k \<in> set ks" and "k' \<in> set ks"
    and "key_filename output_folder k = key_filename output_folder k'"
  then show "k = k'" using assms by (intro key_filename_inj) simp_all
qed

lemma card_key_filenames:
  assumes "\<And>k. k \<in> set ks \<Longrightarrow> length (fst k) = 3" and "distinct ks"
  shows "card (key_filename output_folder ` set ks) = length ks"
proof -
  have "inj_on (key_filename output_folder) (set ks)"
    using assms(1) by (rule inj_on_key_filename)
  then have "card (key_filename output_folder ` set ks) = card (set ks)" by (rule card_image)
  with assms(2) show ?thesis by (simp add: distinct_card)
qed

lemma save_all_Inr:
  "save_all resolve save_raises self output_folder w = Inr w' \<Longrightarrow>
     \<exists>w2. save_all_loop resolve save_raises output_folder (tiles self) w = Inr w2
        \<and> files w' = files w2 \<and> save_log w' = save_log w2"
  by (auto simp: save_all_def py_print_def split: sum.splits)

lemma distinct_list_tiles_after_calls:
  "distinct (list_tiles self) \<Longrightarrow> distinct (list_tiles (after_calls self calls))"
  unfolding after_calls_def
proof (induction calls arbitrary: self)
  case Nil
  then show ?case by simp
next
  case (Cons c calls)
  have "distinct (list_tiles (after_call self c))"
    using Cons.prems
    by (cases c) (simp_all add: list_tiles_def add_tile_def distinct_dict_setitem)
  then show ?case using Cons.IH by simp
qed

lemma distinct_list_tiles_reachable: "distinct (list_tiles (after_calls init calls))"
  by (rule distinct_list_tiles_after_calls) (simp add: list_tiles_def init_def dict_keys_def)

text \<open>
  C6. When \<open>save_all\<close> returns, it has called \<^verbatim>\<open>Image.save\<close> once for every stored
  entry, in the order of the dictionary, with the image of the entry and the path
  \<^verbatim>\<open><folder>/<name>_<z>_<x>_<y>.png\<close> of its key \<open>(x, y, z, name)\<close>; every key has
  three coordinates; the paths of the entries are pairwise different strings; and a file
  that none of these paths names is left as it was. When the paths name pairwise
  different files, there are as many files written as stored entries, and the file of
  every entry holds the image of that entry. The keys of a dictionary are distinct
  (\<open>distinct_list_tiles_reachable\<close>: for every cube built from the empty one).
\<close>

theorem save_all_files:
  assumes "save_all resolve save_raises self output_folder w = Inr w'"
    and "distinct (list_tiles self)"
  shows "save_log w' = save_log w @ entry_saves output_folder (tiles self)
       \<and> key_filename output_folder ([x, y, z], name) =
           output_folder @ ''/'' @ name @ ''_'' @ str_int z @ ''_'' @ str_int x @ ''_'' @
             str_int y @ ''.png''
       \<and> (key \<in> set (list_tiles self) \<longrightarrow> length (fst key) = 3)
       \<and> card (key_filename output_folder ` set (list_tiles self)) = length (list_tiles self)
       \<and> (f \<notin> resolve ` key_filename output_folder ` set (list_tiles self) \<longrightarrow>
            files w' f = files w f)
       \<and> (inj_on resolve (key_filename output_folder ` set (list_tiles self)) \<longrightarrow>
            card (resolve ` key_filename output_folder ` set (list_tiles self))
              = length (list_tiles self)
            \<and> (get_tile self name [x, y, z] = Some (img, meta) \<longrightarrow>
                 files w' (resolve (output_folder @ ''/'' @ name @ ''_'' @ str_int z @ ''_'' @
                   str_int x @ ''_'' @ str_int y @ ''.png'')) = Some img))"
proof -
  let ?P = "key_filename output_folder ` set (list_tiles self)"
  let ?g = "\<lambda>k. resolve (key_filename output_folder k)"
  from assms(1) obtain w2 where
    loop: "save_all_loop resolve save_raises output_folder (tiles self) w = Inr w2"
    and f: "files w' = files w2" and l: "save_log w' = save_log w2"
    using save_all_Inr by blast
  have a: "save_log w' = save_log w @ entry_saves output_folder (tiles self)"
    unfolding l using loop by (rule save_all_loop_log)
  have b: "key_filename output_folder ([x, y, z], name) =
      output_folder @ ''/'' @ name @ ''_'' @ str_int z @ ''_'' @ str_int x @ ''_'' @
        str_int y @ ''.png''"
    by (simp add: key_filename_def cube_filename_def)
  have len: "length (fst k) = 3" if "k \<in> set (list_tiles self)" for k
    using loop that unfolding list_tiles_def by (rule save_all_loop_lengths)
  have c: "card ?P = length (list_tiles self)"
    using len assms(2) by (rule card_key_filenames)
  have d: "files w' f = files w f" if "f \<notin> resolve ` ?P"
  proof -
    from that have "f \<notin> ?g ` set (dict_keys (tiles self))"
      by (simp add: image_image list_tiles_def)
    with loop show ?thesis unfolding f by (rule save_all_loop_frame)
  qed
  have e1: "card (resolve ` ?P) = length (list_tiles self)" if "inj_on resolve ?P"
  proof -
    from that have "card (resolve ` ?P) = card ?P" by (rule card_image)
    with c show ?thesis by simp
  qed
  have e2: "files w' (resolve (output_folder @ ''/'' @ name @ ''_'' @ str_int z @ ''_'' @
      str_int x @ ''_'' @ str_int y @ ''.png'')) = Some img"
    if i: "inj_on resolve ?P" and g: "get_tile self name [x, y, z] = Some (img, meta)"
  proof -
    have "inj_on (key_filename output_folder) (set (list_tiles self))"
      using len by (rule inj_on_key_filename)
    with i have "inj_on (resolve \<circ> key_filename output_folder) (set (list_tiles self))"
      by (intro comp_inj_on)
    then have inj: "inj_on ?g (set (dict_keys (tiles self)))"
      by (simp add: comp_def list_tiles_def)
    from g have "dict_get (tiles self) ([x, y, z], name) = Some (img, meta)"
      by (simp add: get_tile_def)
    with loop assms(2) inj
    have "files w2 (resolve (key_filename output_folder ([x, y, z], name))) = Some img"
      unfolding list_tiles_def by (intro save_all_loop_written)
    then show ?thesis by (simp only: f b)
  qed
  from a b len c d e1 e2 show ?thesis by blast
qed

text \<open>A cube of two entries, saved to the folder \<open>out\<close> of an empty world.\<close>

theorem save_all_files_witness:
  "save_all posix_resolve never_raises
       (add_tile (add_tile init ''ndvi'' (7::nat) (8::nat) [1, 2, 3]) ''ndwi'' 9 10 [4, 5, 6])
       ''out'' empty_world
     = Inr \<lparr>files = [(False, [''out'', ''ndvi_3_1_2.png'']) \<mapsto> 7,
                     (False, [''out'', ''ndwi_6_4_5.png'']) \<mapsto> 9],
            save_log = [(''out/ndvi_3_1_2.png'', 7), (''out/ndwi_6_4_5.png'', 9)],
            stdout = [''Saved 2 tiles to out'']\<rparr>
   \<and> distinct (list_tiles (add_tile (add_tile init ''ndvi'' (7::nat) (8::nat) [1, 2, 3]) ''ndwi'' 9 10 [4, 5, 6]))
   \<and> entry_saves ''out'' (tiles (add_tile (add_tile init ''ndvi'' (7::nat) (8::nat) [1, 2, 3]) ''ndwi'' 9 10 [4, 5, 6]))
       = [(''out/ndvi_3_1_2.png'', 7), (''out/ndwi_6_4_5.png'', 9)]
   \<and> ([1, 2, 3], ''ndvi'') \<in> set (list_tiles (add_tile (add_tile init ''ndvi'' (7::nat) (8::nat) [1, 2, 3]) ''ndwi'' 9 10 [4, 5, 6]))
   \<and> card (key_filename ''out'' ` set (list_tiles (add_tile (add_tile init ''ndvi'' (7::nat) (8::nat) [1, 2, 3]) ''ndwi'' 9 10 [4, 5, 6]))) = 2
   \<and> posix_resolve ''out/other.png'' \<notin> posix_resolve ` key_filename ''out'' ` set (list_tiles (add_tile (add_tile init ''ndvi'' (7::nat) (8::nat) [1, 2, 3]) ''ndwi'' 9 10 [4, 5, 6]))
   \<and> inj_on posix_resolve (key_filename ''out'' ` set (list_tiles (add_tile (add_tile init ''ndvi'' (7::nat) (8::nat) [1, 2, 3]) ''ndwi'' 9 10 [4, 5, 6])))
   \<and> card (posix_resolve ` key_filename ''out'' ` set (list_tiles (add_tile (add_tile init ''ndvi'' (7::nat) (8::nat) [1, 2, 3]) ''ndwi'' 9 10 [4, 5, 6]))) = 2
   \<and> get_tile (add_tile (add_tile init ''ndvi'' (7::nat) (8::nat) [1, 2, 3]) ''ndwi'' 9 10 [4, 5, 6])
        ''ndvi'' [1, 2, 3] = Some (7, 8)
   \<and> [(False, [''out'', ''ndvi_3_1_2.png'']) \<mapsto> 7::nat, (False, [''out'', ''ndwi_6_4_5.png'']) \<mapsto> 9]
        (posix_resolve ''out/ndvi_3_1_2.png'') = Some 7"
proof -
  let ?c = "add_tile (add_tile init ''ndvi'' (7::nat) (8::nat) [1, 2, 3]) ''ndwi'' 9 10 [4, 5, 6]"
  let ?w' = "\<lparr>files = [(False, [''out'', ''ndvi_3_1_2.png'']) \<mapsto> 7::nat,
                     (False, [''out'', ''ndwi_6_4_5.png'']) \<mapsto> 9],
            save_log = [(''out/ndvi_3_1_2.png'', 7), (''out/ndwi_6_4_5.png'', 9)],
            stdout = [''Saved 2 tiles to out'']\<rparr>"
  have run: "save_all posix_resolve never_raises ?c ''out'' empty_world = Inr ?w'"
    by (simp add: save_all_def add_tile_def init_def image_save_def py_print_def cube_filename_def
        never_raises_def empty_world_def str_int_def str_nat.simps digit_char_def
        posix_resolve_examples)
  have keys: "list_tiles ?c = [([1, 2, 3], ''ndvi''), ([4, 5, 6], ''ndwi'')]"
    by (simp add: list_tiles_def add_tile_def init_def dict_keys_def)
  have d: "distinct (list_tiles ?c)" unfolding keys by simp
  have g: "get_tile ?c ''ndvi'' [1, 2, 3] = Some (7, 8)"
    by (simp add: get_tile_def add_tile_def init_def)
  have names: "key_filename ''out'' ` set (list_tiles ?c) = {''out/ndvi_3_1_2.png'', ''out/ndwi_6_4_5.png''}"
    unfolding keys
    by (simp add: key_filename_def cube_filename_def str_int_def str_nat.simps digit_char_def)
  have o: "posix_resolve ''out/other.png'' \<notin> posix_resolve ` key_filename ''out'' ` set (list_tiles ?c)"
    unfolding names by (simp add: posix_resolve_examples)
  have i: "inj_on posix_resolve (key_filename ''out'' ` set (list_tiles ?c))"
    unfolding names by (simp add: posix_resolve_examples)
  have m: "([1, 2, 3], ''ndvi'') \<in> set (list_tiles ?c)" unfolding keys by simp
  have s: "entry_saves ''out'' (tiles ?c) = [(''out/ndvi_3_1_2.png'', 7), (''out/ndwi_6_4_5.png'', 9)]"
    by (simp add: entry_saves_def add_tile_def init_def key_filename_def cube_filename_def
        str_int_def str_nat.simps digit_char_def)
  note t = save_all_files [OF run d, where name = "''ndvi''" and x = 1 and y = 2 and z = 3
      and key = "([1, 2, 3], ''ndvi'')" and f = "posix_resolve ''out/other.png''"
      and img = 7 and meta = 8]
  from t have "card (key_filename ''out'' ` set (list_tiles ?c)) = length (list_tiles ?c)"
    by blast
  then have c1: "card (key_filename ''out'' ` set (list_tiles ?c)) = 2" unfolding keys by simp
  from t i have "card (posix_resolve ` key_filename ''out'' ` set (list_tiles ?c)) = length (list_tiles ?c)"
    by blast
  then have c2: "card (posix_resolve ` key_filename ''out'' ` set (list_tiles ?c)) = 2"
    unfolding keys by simp
  have fl: "[(False, [''out'', ''ndvi_3_1_2.png'']) \<mapsto> 7::nat, (False, [''out'', ''ndwi_6_4_5.png'']) \<mapsto> 9]
        (posix_resolve ''out/ndvi_3_1_2.png'') = Some 7"
    by (simp add: posix_resolve_examples)
  from run d s m c1 o i c2 g fl show ?thesis by simp
qed

text \<open>
  The claim as stated, one file per stored entry, fails for the names \<^verbatim>\<open>a\<close> and
  \<^verbatim>\<open>/a\<close> at the same coordinates: the paths \<^verbatim>\<open>out/a_3_1_2.png\<close> and
  \<^verbatim>\<open>out//a_3_1_2.png\<close> are different strings and name one file. The cube has two
  entries, \<open>save_all\<close> returns after two calls of \<^verbatim>\<open>Image.save\<close>, and there is one
  file, which holds the second image; the image stored under the name \<^verbatim>\<open>a\<close> is in
  no file.
\<close>

theorem save_all_one_file_counterexample:
  "save_all posix_resolve never_raises
       (add_tile (add_tile init ''a'' (7::nat) (8::nat) [1, 2, 3]) ''/a'' 9 10 [1, 2, 3])
       ''out'' empty_world
     = Inr \<lparr>files = [(False, [''out'', ''a_3_1_2.png'']) \<mapsto> 9],
            save_log = [(''out/a_3_1_2.png'', 7), (''out//a_3_1_2.png'', 9)],
            stdout = [''Saved 2 tiles to out'']\<rparr>
   \<and> list_tiles (add_tile (add_tile init ''a'' (7::nat) (8::nat) [1, 2, 3]) ''/a'' 9 10 [1, 2, 3])
       = [([1, 2, 3], ''a''), ([1, 2, 3], ''/a'')]
   \<and> get_tile (add_tile (add_tile init ''a'' (7::nat) (8::nat) [1, 2, 3]) ''/a'' 9 10 [1, 2, 3])
        ''a'' [1, 2, 3] = Some (7, 8)
   \<and> posix_resolve ''out/a_3_1_2.png'' = (False, [''out'', ''a_3_1_2.png''])
   \<and> posix_resolve ''out//a_3_1_2.png'' = (False, [''out'', ''a_3_1_2.png''])
   \<and> card (dom [(False, [''out'', ''a_3_1_2.png'']) \<mapsto> 9::nat]) = 1"
  by (simp add: save_all_def add_tile_def init_def image_save_def py_print_def cube_filename_def
      never_raises_def empty_world_def str_int_def str_nat.simps digit_char_def
      posix_resolve_examples list_tiles_def dict_keys_def get_tile_def)

subsection \<open>Fetching a tile\<close>

text \<open>
  C4. When mercantile, the tile engine and the image decoder return, \<open>fetch_index_tile\<close>
  returns the decoded image, the engine's feature and the triple \<open>(x, y, z)\<close> that
  \<^verbatim>\<open>mercantile.tile(lon, lat, zoom)\<close> gave for the point. \<open>fetch_ndvi_tile\<close> requests
  the tile of the same triple, with the bands \<open>red\<close> and \<open>nir\<close>, and returns the image
  and the feature only.
\<close>

theorem fetch_tile_results:
  "(mercantile_tile ext lon lat zoom = Inr (x, y, z) \<and>
    cached_generate_tile ext
      \<lparr>req_x = x, req_y = y, req_z = z, req_start_date = start_date, req_end_date = end_date,
       req_cloud_cover = cloud_cover, req_band1 = band1, req_band2 = band2,
       req_formula = formula, req_colormap_str = colormap_str\<rparr> = Inr (image_bytes, feature) \<and>
    image_open ext image_bytes = Inr img \<longrightarrow>
      fetch_index_tile ext lat lon zoom start_date end_date cloud_cover band1 band2 formula
        colormap_str = Inr (img, feature, (x, y, z)))
   \<and> (mercantile_tile ext lon lat zoom = Inr (x, y, z) \<and>
    cached_generate_tile ext
      \<lparr>req_x = x, req_y = y, req_z = z, req_start_date = start_date, req_end_date = end_date,
       req_cloud_cover = cloud_cover, req_band1 = ''red'', req_band2 = ''nir'',
       req_formula = ''(band2-band1)/(band2+band1)'', req_colormap_str = ''RdYlGn''\<rparr>
      = Inr (image_bytes', feature') \<and>
    image_open ext image_bytes' = Inr img' \<longrightarrow>
      fetch_ndvi_tile ext lat lon zoom start_date end_date cloud_cover = Inr (img', feature'))"
  by (simp add: fetch_index_tile_def fetch_ndvi_tile_def)

text \<open>A point at zoom level 0, fetched through the sample libraries.\<close>

theorem fetch_tile_results_witness:
  "mercantile_tile sample_externals 20 10 0 = Inr (0, 0, 0)
   \<and> cached_generate_tile sample_externals
      \<lparr>req_x = 0, req_y = 0, req_z = 0, req_start_date = ''2024-04-01'', req_end_date = ''2024-04-30'',
       req_cloud_cover = 30, req_band1 = ''red'', req_band2 = ''nir'',
       req_formula = ''(band2-band1)/(band2+band1)'', req_colormap_str = ''RdYlGn''\<rparr>
      = Inr (''png bytes'', ''feature'')
   \<and> image_open sample_externals ''png bytes'' = Inr ''png bytes''
   \<and> fetch_index_tile sample_externals 10 20 0 ''2024-04-01'' ''2024-04-30'' 30 ''red'' ''nir''
        ''(band2-band1)/(band2+band1)'' ''RdYlGn'' = Inr (''png bytes'', ''feature'', (0, 0, 0))
   \<and> fetch_ndvi_tile sample_externals 10 20 0 ''2024-04-01'' ''2024-04-30'' 30
        = Inr (''png bytes'', ''feature'')"
  using fetch_tile_results [of sample_externals 20 10 0 0 0 0 "''2024-04-01''" "''2024-04-30''" 30
      "''red''" "''nir''" "''(band2-band1)/(band2+band1)''" "''RdYlGn''" "''png bytes''" "''feature''"
      "''png bytes''" "''png bytes''" "''feature''" "''png bytes''"]
  by (simp add: sample_externals_def sample_tile_def sample_open_def)

text \<open>
  The claim as stated fails twice: the result of \<open>fetch_ndvi_tile\<close> is the pair of the
  image and the feature, with no coordinates in it; and without a network the engine
  raises, so that \<open>fetch_index_tile\<close> returns nothing for this input.
\<close>

theorem fetch_tile_counterexample:
  "fetch_ndvi_tile sample_externals 10 20 0 ''2024-04-01'' ''2024-04-30'' 30
        = Inr (''png bytes'', ''feature'')
   \<and> fetch_index_tile offline_externals 10 20 0 ''2024-04-01'' ''2024-04-30'' 30 ''red'' ''nir''
        ''(band2-band1)/(band2+band1)'' ''RdYlGn'' = Inl (Raised ''ConnectionError'')"
  by (simp add: fetch_ndvi_tile_def fetch_index_tile_def sample_externals_def offline_externals_def
      sample_tile_def sample_open_def)

subsection \<open>Exceptions pass through\<close>

lemma save_all_loop_append:
  "save_all_loop resolve save_raises output_folder (pre @ rest) w =
     (case save_all_loop resolve save_raises output_folder pre w of
        Inl e \<Rightarrow> Inl e
      | Inr w1 \<Rightarrow> save_all_loop resolve save_raises output_folder rest w1)"
proof (induction pre arbitrary: w)
  case Nil
  then show ?case by simp
next
  case (Cons entry pre)
  obtain coords name img meta where e: "entry = ((coords, name), (img, meta))"
    by (cases entry) auto
  show ?case
    unfolding e using Cons.IH by (simp add: Let_def split: sum.splits)
qed

lemma save_all_raises:
  assumes "save_all_loop resolve save_raises output_folder pre w = Inr w1"
    and "save_raises img (cube_filename output_folder name x y z) w1 = Some e"
    and "tiles self = pre @ (([x, y, z], name), (img, meta)) # rest"
  shows "save_all resolve save_raises self output_folder w = Inl e"
  using assms by (simp add: save_all_def save_all_loop_append image_save_def)

lemma compute_index_raises:
  "py_eval (rename_bands numerator)
        \<lparr>loc_nir_array = nir_array, loc_red_array = red_array, loc_numerator = numerator,
         loc_denominator = denominator, loc_b1 = astype_float32 red_array,
         loc_b2 = astype_float32 nir_array, loc_num = None\<rparr> = Inl e
   \<Longrightarrow> compute_index py_eval nir_array red_array numerator denominator = Inl e"
  "py_eval (rename_bands numerator)
        \<lparr>loc_nir_array = nir_array, loc_red_array = red_array, loc_numerator = numerator,
         loc_denominator = denominator, loc_b1 = astype_float32 red_array,
         loc_b2 = astype_float32 nir_array, loc_num = None\<rparr> = Inr (num, fr1)
   \<Longrightarrow> py_eval (rename_bands denominator) (fr1\<lparr>loc_num := Some num\<rparr>) = Inl e
   \<Longrightarrow> compute_index py_eval nir_array red_array numerator denominator = Inl e"
  "py_eval (rename_bands numerator)
        \<lparr>loc_nir_array = nir_array, loc_red_array = red_array, loc_numerator = numerator,
         loc_denominator = denominator, loc_b1 = astype_float32 red_array,
         loc_b2 = astype_float32 nir_array, loc_num = None\<rparr> = Inr (num, fr1)
   \<Longrightarrow> py_eval (rename_bands denominator) (fr1\<lparr>loc_num := Some num\<rparr>) = Inr (den, fr2)
   \<Longrightarrow> py_truediv (num_after fr2 num) (py_add_float den eps) = Inl e
   \<Longrightarrow> compute_index py_eval nir_array red_array numerator denominator = Inl e"
  by (simp_all add: compute_index_def index_operands_def index_divisor_def)

lemma compute_ndvi_raises:
  "np_binop (fsub binary32) (astype_float32 nir_array) (astype_float32 red_array) = Inl e
     \<Longrightarrow> compute_ndvi nir_array red_array = Inl e"
  by (simp add: compute_ndvi_def)

lemma save_tile_image_raises:
  "save_raises img (tile_filename output_folder x y z) w = Some e
     \<Longrightarrow> save_tile_image resolve save_raises img x y z output_folder w = Inl e"
  "save_raises img (trials_tile_filename output_folder x y z) w = Some e
     \<Longrightarrow> trials_save_tile_image resolve save_raises img x y z output_folder w = Inl e"
  by (simp_all add: save_tile_image_def trials_save_tile_image_def image_save_def)

lemma fetch_raises:
  "mercantile_tile ext lon lat zoom = Inl e \<Longrightarrow>
     fetch_index_tile ext lat lon zoom start_date end_date cloud_cover band1 band2 formula
       colormap_str = Inl e
     \<and> fetch_ndvi_tile ext lat lon zoom start_date end_date cloud_cover = Inl e"
  "mercantile_tile ext lon lat zoom = Inr (x, y, z) \<Longrightarrow>
   cached_generate_tile ext
      \<lparr>req_x = x, req_y = y, req_z = z, req_start_date = start_date, req_end_date = end_date,
       req_cloud_cover = cloud_cover, req_band1 = band1, req_band2 = band2,
       req_formula = formula, req_colormap_str = colormap_str\<rparr> = Inl e \<Longrightarrow>
     fetch_index_tile ext lat lon zoom start_date end_date cloud_cover band1 band2 formula
       colormap_str = Inl e"
  "mercantile_tile ext lon lat zoom = Inr (x, y, z) \<Longrightarrow>
   cached_generate_tile ext
      \<lparr>req_x = x, req_y = y, req_z = z, req_start_date = start_date, req_end_date = end_date,
       req_cloud_cover = cloud_cover, req_band1 = band1, req_band2 = band2,
       req_formula = formula, req_colormap_str = colormap_str\<rparr> = Inr (image_bytes, feature) \<Longrightarrow>
   image_open ext image_bytes = Inl e \<Longrightarrow>
     fetch_index_tile ext lat lon zoom start_date end_date cloud_cover band1 band2 formula
       colormap_str = Inl e"
  "mercantile_tile ext lon lat zoom = Inr (x, y, z) \<Longrightarrow>
   cached_generate_tile ext
      \<lparr>req_x = x, req_y = y, req_z = z, req_start_date = start_date, req_end_date = end_date,
       req_cloud_cover = cloud_cover, req_band1 = ''red'', req_band2 = ''nir'',
       req_formula = ''(band2-band1)/(band2+band1)'', req_colormap_str = ''RdYlGn''\<rparr> = Inl e \<Longrightarrow>
     fetch_ndvi_tile ext lat lon zoom start_date end_date cloud_cover = Inl e"
  "mercantile_tile ext lon lat zoom = Inr (x, y, z) \<Longrightarrow>
   cached_generate_tile ext
      \<lparr>req_x = x, req_y = y, req_z = z, req_start_date = start_date, req_end_date = end_date,
       req_cloud_cover = cloud_cover, req_band1 = ''red'', req_band2 = ''nir'',
       req_formula = ''(band2-band1)/(band2+band1)'', req_colormap_str = ''RdYlGn''\<rparr>
      = Inr (image_bytes, feature) \<Longrightarrow>
   image_open ext image_bytes = Inl e \<Longrightarrow>
     fetch_ndvi_tile ext lat lon zoom start_date end_date cloud_cover = Inl e"
  by (simp_all add: fetch_index_tile_def fetch_ndvi_tile_def)

text \<open>
  C8. No operation catches an exception. If the evaluation of the numerator or of the
  denominator raises, or the division of the two values does, \<open>compute_index\<close> raises the
  same exception; if the subtraction of the arrays raises, so does \<open>compute_ndvi\<close>; if
  \<^verbatim>\<open>Image.save\<close> raises, so do both \<open>save_tile_image\<close> functions and, at the first
  entry whose save raises, \<open>save_all\<close>; if mercantile, the tile engine or the image
  decoder raises, so do \<open>fetch_index_tile\<close> and \<open>fetch_ndvi_tile\<close>. In every case the
  result is the exception itself and no value.
\<close>

theorem errors_propagate:
  "(py_eval (rename_bands numerator)
        \<lparr>loc_nir_array = nir_array, loc_red_array = red_array, loc_numerator = numerator,
         loc_denominator = denominator, loc_b1 = astype_float32 red_array,
         loc_b2 = astype_float32 nir_array, loc_num = None\<rparr>
        = Inl e \<longrightarrow>
      compute_index py_eval nir_array red_array numerator denominator = Inl e)
   \<and> (py_eval (rename_bands numerator)
        \<lparr>loc_nir_array = nir_array, loc_red_array = red_array, loc_numerator = numerator,
         loc_denominator = denominator, loc_b1 = astype_float32 red_array,
         loc_b2 = astype_float32 nir_array, loc_num = None\<rparr>
        = Inr (num, fr1) \<and>
      py_eval (rename_bands denominator) (fr1\<lparr>loc_num := Some num\<rparr>) = Inl e \<longrightarrow>
      compute_index py_eval nir_array red_array numerator denominator = Inl e)
   \<and> (py_eval (rename_bands numerator)
        \<lparr>loc_nir_array = nir_array, loc_red_array = red_array, loc_numerator = numerator,
         loc_denominator = denominator, loc_b1 = astype_float32 red_array,
         loc_b2 = astype_float32 nir_array, loc_num = None\<rparr>
        = Inr (num, fr1) \<and>
      py_eval (rename_bands denominator) (fr1\<lparr>loc_num := Some num\<rparr>) = Inr (den, fr2) \<and>
      py_truediv (num_after fr2 num) (py_add_float den eps) = Inl e \<longrightarrow>
      compute_index py_eval nir_array red_array numerator denominator = Inl e)
   \<and> (np_binop (fsub binary32) (astype_float32 nir_array) (astype_float32 red_array) = Inl e \<longrightarrow>
      compute_ndvi nir_array red_array = Inl e)
   \<and> (save_raises img (tile_filename output_folder x y z) w = Some e \<longrightarrow>
      save_tile_image resolve save_raises img x y z output_folder w = Inl e)
   \<and> (save_raises img (trials_tile_filename output_folder x y z) w = Some e \<longrightarrow>
      trials_save_tile_image resolve save_raises img x y z output_folder w = Inl e)
   \<and> (save_all_loop resolve save_raises output_folder saved w = Inr w1 \<and>
      save_raises img (cube_filename output_folder name x y z) w1 = Some e \<and>
      tiles self = saved @ (([x, y, z], name), (img, meta)) # rest \<longrightarrow>
      save_all resolve save_raises self output_folder w = Inl e)
   \<and> (mercantile_tile ext lon lat zoom = Inl e \<longrightarrow>
      fetch_index_tile ext lat lon zoom start_date end_date cloud_cover band1 band2 formula
        colormap_str = Inl e
      \<and> fetch_ndvi_tile ext lat lon zoom start_date end_date cloud_cover = Inl e)
   \<and> (mercantile_tile ext lon lat zoom = Inr (tx, ty, tz) \<and>
      cached_generate_tile ext
        \<lparr>req_x = tx, req_y = ty, req_z = tz, req_start_date = start_date,
         req_end_date = end_date, req_cloud_cover = cloud_cover, req_band1 = band1,
         req_band2 = band2, req_formula = formula, req_colormap_str = colormap_str\<rparr> = Inl e \<longrightarrow>
      fetch_index_tile ext lat lon zoom start_date end_date cloud_cover band1 band2 formula
        colormap_str = Inl e)
   \<and> (mercantile_tile ext lon lat zoom = Inr (tx, ty, tz) \<and>
      cached_generate_tile ext
        \<lparr>req_x = tx, req_y = ty, req_z = tz, req_start_date = start_date,
         req_end_date = end_date, req_cloud_cover = cloud_cover, req_band1 = band1,
         req_band2 = band2, req_formula = formula, req_colormap_str = colormap_str\<rparr>
        = Inr (image_bytes, feature) \<and>
      image_open ext image_bytes = Inl e \<longrightarrow>
      fetch_index_tile ext lat lon zoom start_date end_date cloud_cover band1 band2 formula
        colormap_str = Inl e)
   \<and> (mercantile_tile ext lon lat zoom = Inr (tx, ty, tz) \<and>
      cached_generate_tile ext
        \<lparr>req_x = tx, req_y = ty, req_z = tz, req_start_date = start_date,
         req_end_date = end_date, req_cloud_cover = cloud_cover, req_band1 = ''red'',
         req_band2 = ''nir'', req_formula = ''(band2-band1)/(band2+band1)'',
         req_colormap_str = ''RdYlGn''\<rparr> = Inl e \<longrightarrow>
      fetch_ndvi_tile ext lat lon zoom start_date end_date cloud_cover = Inl e)
   \<and> (mercantile_tile ext lon lat zoom = Inr (tx, ty, tz) \<and>
      cached_generate_tile ext
        \<lparr>req_x = tx, req_y = ty, req_z = tz, req_start_date = start_date,
         req_end_date = end_date, req_cloud_cover = cloud_cover, req_band1 = ''red'',
         req_band2 = ''nir'', req_formula = ''(band2-band1)/(band2+band1)'',
         req_colormap_str = ''RdYlGn''\<rparr> = Inr (image_bytes, feature) \<and>
      image_open ext image_bytes = Inl e \<longrightarrow>
      fetch_ndvi_tile ext lat lon zoom start_date end_date cloud_cover = Inl e)"
  apply (intro conjI impI)
  subgoal by (rule compute_index_raises(1))
  subgoal by (rule compute_index_raises(2)) blast+
  subgoal by (rule compute_index_raises(3)) blast+
  subgoal by (rule compute_ndvi_raises)
  subgoal by (rule save_tile_image_raises(1))
  subgoal by (rule save_tile_image_raises(2))
  subgoal by (rule save_all_raises) blast+
  subgoal using fetch_raises(1) by blast
  subgoal using fetch_raises(1) by blast
  subgoal by (rule fetch_raises(2)) blast+
  subgoal by (rule fetch_raises(3)) blast+
  subgoal by (rule fetch_raises(4)) blast+
  subgoal by (rule fetch_raises(5)) blast+
  done
text \<open>
  One failing input for each of the twelve cases: an incomplete expression, arrays of
  different lengths, a disk on which a save fails, a point at the pole, an engine without
  a network, and bytes that are no image.
\<close>

theorem errors_propagate_witness:
  "compute_index sample_eval [Fin 2] [Fin 1] ''band2-'' ''band2+band1'' = Inl (Raised
      ''SyntaxError'')
   \<and> compute_index sample_eval [Fin 2] [Fin 1] ''band2-band1'' ''band2+'' = Inl (Raised
      ''SyntaxError'')
   \<and> compute_index sample_eval [Fin 1, Fin 2, Fin 3] [Fin 1, Fin 2] ''band1'' ''band2'' =
      Inl ValueError
   \<and> compute_ndvi [Fin 1, Fin 2, Fin 3] [Fin 1, Fin 2] = Inl ValueError
   \<and> save_tile_image posix_resolve disk_full ''image'' 1 2 3 ''out'' empty_world = Inl (Raised
      ''OSError'')
   \<and> trials_save_tile_image posix_resolve disk_full ''image'' 1 2 3 ''out'' empty_world = Inl
      (Raised ''OSError'')
   \<and> save_all posix_resolve disk_full (add_tile init ''ndvi'' ''image'' ''meta'' [1, 2, 3])
      ''out'' empty_world = Inl (Raised ''OSError'')
   \<and> fetch_index_tile sample_externals 90 20 0 ''2024-04-01'' ''2024-04-30'' 30 ''red''
      ''nir'' ''(band2-band1)/(band2+band1)'' ''RdYlGn'' = Inl (Raised
      ''InvalidLatitudeError'') \<and> fetch_ndvi_tile sample_externals 90 20 0
      ''2024-04-01'' ''2024-04-30'' 30 = Inl (Raised ''InvalidLatitudeError'')
   \<and> fetch_index_tile offline_externals 10 20 0 ''2024-04-01'' ''2024-04-30'' 30 ''red''
      ''nir'' ''(band2-band1)/(band2+band1)'' ''RdYlGn'' = Inl (Raised ''ConnectionError'')
   \<and> fetch_index_tile corrupt_externals 10 20 0 ''2024-04-01'' ''2024-04-30'' 30 ''red''
      ''nir'' ''(band2-band1)/(band2+band1)'' ''RdYlGn'' = Inl (Raised
      ''UnidentifiedImageError'')
   \<and> fetch_ndvi_tile offline_externals 10 20 0 ''2024-04-01'' ''2024-04-30'' 30 = Inl
      (Raised ''ConnectionError'')
   \<and> fetch_ndvi_tile corrupt_externals 10 20 0 ''2024-04-01'' ''2024-04-30'' 30 = Inl
      (Raised ''UnidentifiedImageError'')"
proof -
  have c1: "compute_index sample_eval [Fin 2] [Fin 1] ''band2-'' ''band2+band1'' = Inl (Raised
      ''SyntaxError'')"
    by (rule errors_propagate [THEN conjunct1, THEN mp])
      (simp add: rename_bands_def str_replace.simps sample_eval_def)
  have c2: "compute_index sample_eval [Fin 2] [Fin 1] ''band2-band1'' ''band2+'' = Inl (Raised
      ''SyntaxError'')"
    by (rule errors_propagate [where
          num = "NdArray [fsub binary32 (cast_to binary32 (Fin 2)) (cast_to binary32 (Fin 1))]"
          and ?fr1.0 = "\<lparr>loc_nir_array = [Fin 2], loc_red_array = [Fin 1],
            loc_numerator = ''band2-band1'', loc_denominator = ''band2+'',
            loc_b1 = astype_float32 [Fin 1], loc_b2 = astype_float32 [Fin 2], loc_num = None\<rparr>",
          THEN conjunct2, THEN conjunct1, THEN mp])
      (simp add: rename_bands_def str_replace.simps sample_eval_def eval_result_def
        np_binop_def astype_float32_def)
  have c3: "compute_index sample_eval [Fin 1, Fin 2, Fin 3] [Fin 1, Fin 2] ''band1'' ''band2'' =
      Inl ValueError"
    by (rule errors_propagate [where
          num = "NdArray (astype_float32 [Fin 1, Fin 2])"
          and den = "NdArray (astype_float32 [Fin 1, Fin 2, Fin 3])"
          and ?fr1.0 = "\<lparr>loc_nir_array = [Fin 1, Fin 2, Fin 3], loc_red_array = [Fin 1, Fin 2],
            loc_numerator = ''band1'', loc_denominator = ''band2'',
            loc_b1 = astype_float32 [Fin 1, Fin 2], loc_b2 = astype_float32 [Fin 1, Fin 2, Fin 3],
            loc_num = None\<rparr>"
          and ?fr2.0 = "\<lparr>loc_nir_array = [Fin 1, Fin 2, Fin 3], loc_red_array = [Fin 1, Fin 2],
            loc_numerator = ''band1'', loc_denominator = ''band2'',
            loc_b1 = astype_float32 [Fin 1, Fin 2], loc_b2 = astype_float32 [Fin 1, Fin 2, Fin 3],
            loc_num = Some (NdArray (astype_float32 [Fin 1, Fin 2]))\<rparr>",
          THEN conjunct2, THEN conjunct2, THEN conjunct1, THEN mp])
      (simp add: rename_bands_def str_replace.simps sample_eval_def eval_result_def
        array_result_def np_binop_def astype_float32_def py_truediv_def py_add_float_def
        np_add_float_def num_after_def)
  have c4: "compute_ndvi [Fin 1, Fin 2, Fin 3] [Fin 1, Fin 2] = Inl ValueError"
    by (rule errors_propagate [THEN conjunct2, THEN conjunct2, THEN conjunct2, THEN conjunct1,
        THEN mp])
      (simp add: np_binop_def astype_float32_def)
  have c5: "save_tile_image posix_resolve disk_full ''image'' 1 2 3 ''out'' empty_world = Inl
      (Raised ''OSError'')"
    by (rule errors_propagate [THEN conjunct2, THEN conjunct2, THEN conjunct2, THEN conjunct2,
        THEN conjunct1, THEN mp])
      (simp add: disk_full_def)
  have c6: "trials_save_tile_image posix_resolve disk_full ''image'' 1 2 3 ''out'' empty_world =
      Inl (Raised ''OSError'')"
    by (rule errors_propagate [THEN conjunct2, THEN conjunct2, THEN conjunct2, THEN conjunct2,
        THEN conjunct2, THEN conjunct1, THEN mp])
      (simp add: disk_full_def)
  have c7: "save_all posix_resolve disk_full (add_tile init ''ndvi'' ''image'' ''meta'' [1, 2, 3])
      ''out'' empty_world = Inl (Raised ''OSError'')"
    by (rule errors_propagate [where saved = "[]" and ?w1.0 = empty_world and img = "''image''"
        and name = "''ndvi''" and x = 1 and y = 2 and z = 3 and meta = "''meta''" and rest =
        "[]", THEN conjunct2, THEN conjunct2, THEN conjunct2, THEN conjunct2, THEN
        conjunct2, THEN conjunct2, THEN conjunct1, THEN mp])
      (simp add: disk_full_def add_tile_def init_def)
  have c8: "fetch_index_tile sample_externals 90 20 0 ''2024-04-01'' ''2024-04-30'' 30 ''red''
      ''nir'' ''(band2-band1)/(band2+band1)'' ''RdYlGn'' = Inl (Raised
      ''InvalidLatitudeError'') \<and> fetch_ndvi_tile sample_externals 90 20 0
      ''2024-04-01'' ''2024-04-30'' 30 = Inl (Raised ''InvalidLatitudeError'')"
    by (rule errors_propagate [THEN conjunct2, THEN conjunct2, THEN conjunct2, THEN conjunct2,
        THEN conjunct2, THEN conjunct2, THEN conjunct2, THEN conjunct1, THEN mp])
      (simp add: sample_externals_def offline_externals_def corrupt_externals_def
        sample_tile_def sample_open_def)
  have c9: "fetch_index_tile offline_externals 10 20 0 ''2024-04-01'' ''2024-04-30'' 30 ''red''
      ''nir'' ''(band2-band1)/(band2+band1)'' ''RdYlGn'' = Inl (Raised ''ConnectionError'')"
    by (rule errors_propagate [where tx = 0 and ty = 0 and tz = 0, THEN conjunct2, THEN
        conjunct2, THEN conjunct2, THEN conjunct2, THEN conjunct2, THEN conjunct2, THEN
        conjunct2, THEN conjunct2, THEN conjunct1, THEN mp])
      (simp add: sample_externals_def offline_externals_def corrupt_externals_def
        sample_tile_def sample_open_def)
  have c10: "fetch_index_tile corrupt_externals 10 20 0 ''2024-04-01'' ''2024-04-30'' 30 ''red''
      ''nir'' ''(band2-band1)/(band2+band1)'' ''RdYlGn'' = Inl (Raised
      ''UnidentifiedImageError'')"
    by (rule errors_propagate [where tx = 0 and ty = 0 and tz = 0 and
        image_bytes = "''not a png''" and feature = "''feature''", THEN conjunct2, THEN conjunct2, THEN conjunct2,
        THEN conjunct2, THEN conjunct2, THEN conjunct2, THEN conjunct2, THEN conjunct2, THEN
        conjunct2, THEN conjunct1, THEN mp])
      (simp add: sample_externals_def offline_externals_def corrupt_externals_def
        sample_tile_def sample_open_def)
  have c11: "fetch_ndvi_tile offline_externals 10 20 0 ''2024-04-01'' ''2024-04-30'' 30 = Inl
      (Raised ''ConnectionError'')"
    by (rule errors_propagate [where tx = 0 and ty = 0 and tz = 0, THEN conjunct2, THEN
        conjunct2, THEN conjunct2, THEN conjunct2, THEN conjunct2, THEN conjunct2, THEN
        conjunct2, THEN conjunct2, THEN conjunct2, THEN conjunct2, THEN conjunct1, THEN mp])
      (simp add: sample_externals_def offline_externals_def corrupt_externals_def
        sample_tile_def sample_open_def)
  have c12: "fetch_ndvi_tile corrupt_externals 10 20 0 ''2024-04-01'' ''2024-04-30'' 30 = Inl
      (Raised ''UnidentifiedImageError'')"
    by (rule errors_propagate [where tx = 0 and ty = 0 and tz = 0 and
        image_bytes = "''not a png''" and feature = "''feature''", THEN conjunct2, THEN conjunct2, THEN conjunct2,
        THEN conjunct2, THEN conjunct2, THEN conjunct2, THEN conjunct2, THEN conjunct2, THEN
        conjunct2, THEN conjunct2, THEN conjunct2, THEN mp])
      (simp add: sample_externals_def offline_externals_def corrupt_externals_def
        sample_tile_def sample_open_def)
  from c1 c2 c3 c4 c5 c6 c7 c8 c9 c10 c11 c12 show ?thesis by blast
qed

subsection \<open>Rounding\<close>








































subsection \<open>Roundings of the examples\<close>




















subsection \<open>The index formula\<close>
















subsection \<open>The divisor\<close>















end
